theory Spec2Isabelle
  imports Complex_Main "HOL-Library.Sublist" "HOL-Library.AList"
begin

section \<open>Strings\<close>

text \<open>
  A JavaScript string is a sequence of 16-bit code units.  The development follows the
  texts whose code units are all below 256 (ASCII and Latin-1), so a text is a
  \<^typ>\<open>string\<close>, one \<^typ>\<open>char\<close> per code unit.  On these texts the library functions
  below do what ECMAScript prescribes; every pattern and every keyword of the program is
  ASCII.
\<close>

fun set_bit5 :: "bool \<Rightarrow> char \<Rightarrow> char" where
  "set_bit5 b (Char b0 b1 b2 b3 b4 b5 b6 b7) = Char b0 b1 b2 b3 b4 b b6 b7"

text \<open>
  \<open>String.prototype.toLowerCase\<close>: A-Z (65-90) and the Latin-1 capitals
  (192-222 without the multiplication sign 215) move up by 32, which sets bit 5 of a
  code in these ranges; every other code unit below 256 is kept.
\<close>

definition toLowerCase_char :: "char \<Rightarrow> char" where
  "toLowerCase_char c =
     (if (65 \<le> (of_char c :: nat) \<and> (of_char c :: nat) \<le> 90) \<or>
         (192 \<le> (of_char c :: nat) \<and> (of_char c :: nat) \<le> 222 \<and> (of_char c :: nat) \<noteq> 215)
      then set_bit5 True c else c)"

definition toLowerCase :: "string \<Rightarrow> string" where
  "toLowerCase s = map toLowerCase_char s"

text \<open>
  \<open>Canonicalize\<close> of a regular expression with the \<open>i\<close> flag and without the \<open>u\<close>
  flag: the upper-case mapping, where it is a single code unit.  a-z (97-122) and the
  Latin-1 small letters (224-254 without the division sign 247) move down by 32.  The
  micro sign and the y with diaeresis map outside Latin-1 and to nothing another code
  unit below 256 maps to, so they stand for themselves here.
\<close>

definition canonicalize :: "char \<Rightarrow> char" where
  "canonicalize c =
     (if (97 \<le> (of_char c :: nat) \<and> (of_char c :: nat) \<le> 122) \<or>
         (224 \<le> (of_char c :: nat) \<and> (of_char c :: nat) \<le> 254 \<and> (of_char c :: nat) \<noteq> 247)
      then set_bit5 False c else c)"

text \<open>Line terminators and white space (the class \<open>\s\<close>, also what \<open>trim\<close> strips).\<close>

definition isLineTerminator :: "char \<Rightarrow> bool" where
  "isLineTerminator c = (c = CHR 0x0A \<or> c = CHR 0x0D)"

definition isWhiteSpace :: "char \<Rightarrow> bool" where
  "isWhiteSpace c =
     (c = CHR 0x09 \<or> c = CHR 0x0A \<or> c = CHR 0x0B \<or> c = CHR 0x0C \<or> c = CHR 0x0D \<or>
      c = CHR 0x20 \<or> c = CHR 0xA0)"

definition trim :: "string \<Rightarrow> string" where
  "trim s = rev (dropWhile isWhiteSpace (rev (dropWhile isWhiteSpace s)))"

text \<open>\<open>String.prototype.includes\<close>: the second string occurs in the first.\<close>

fun includes_str :: "string \<Rightarrow> string \<Rightarrow> bool" where
  "includes_str [] w = (w = [])"
| "includes_str (x # xs) w = (prefix w (x # xs) \<or> includes_str xs w)"

section \<open>Regular expressions\<close>

text \<open>
  The patterns of the program use literals, character classes, alternation, optional
  parts, and the greedy quantifiers \<open>*\<close> and \<open>+\<close> on a character class only.  \<open>Grp\<close> is
  the capturing group whose text the program reads; groups that only bracket an
  alternation are written without it.  No class of the program holds a letter, so the
  \<open>i\<close> flag acts on literals only.
\<close>

datatype cls = Dot | WhiteSpace | NonWhiteSpace | NoneOf string | OneOf string

fun in_cls :: "cls \<Rightarrow> char \<Rightarrow> bool" where
  "in_cls Dot c = (\<not> isLineTerminator c)"
| "in_cls WhiteSpace c = isWhiteSpace c"
| "in_cls NonWhiteSpace c = (\<not> isWhiteSpace c)"
| "in_cls (NoneOf cs) c = (c \<notin> set cs)"
| "in_cls (OneOf cs) c = (c \<in> set cs)"

datatype rx = Lit string | One cls | Star cls | Plus cls | Seq rx rx | Alt rx rx | Opt rx | Grp rx

definition char_eq :: "bool \<Rightarrow> char \<Rightarrow> char \<Rightarrow> bool" where
  "char_eq ic p c = (if ic then canonicalize p = canonicalize c else p = c)"

text \<open>The rest of the text after a literal, when the text starts with it.\<close>

fun lit :: "bool \<Rightarrow> string \<Rightarrow> string \<Rightarrow> string option" where
  "lit ic [] s = Some s"
| "lit ic (p # ps) [] = None"
| "lit ic (p # ps) (c # cs) = (if char_eq ic p c then lit ic ps cs else None)"

text \<open>
  Matching follows the continuation-passing matchers of the language definition: a
  matcher takes the text still to read, the capture so far and a continuation for what
  follows the pattern, and backtracks into the next choice when the continuation
  fails.  A greedy quantifier tries the longest run first.
\<close>

fun star :: "cls \<Rightarrow> string \<Rightarrow> (string \<Rightarrow> 'a option) \<Rightarrow> 'a option" where
  "star k [] c = c []"
| "star k (x # xs) c =
     (if in_cls k x
      then (case star k xs c of Some y \<Rightarrow> Some y | None \<Rightarrow> c (x # xs))
      else c (x # xs))"

fun matcher :: "bool \<Rightarrow> rx \<Rightarrow> string \<Rightarrow> string option \<Rightarrow>
    (string \<Rightarrow> string option \<Rightarrow> 'a option) \<Rightarrow> 'a option" where
  "matcher ic (Lit w) s g c = (case lit ic w s of None \<Rightarrow> None | Some r \<Rightarrow> c r g)"
| "matcher ic (One k) s g c =
     (case s of [] \<Rightarrow> None | x # xs \<Rightarrow> if in_cls k x then c xs g else None)"
| "matcher ic (Star k) s g c = star k s (\<lambda>r. c r g)"
| "matcher ic (Plus k) s g c =
     (case s of [] \<Rightarrow> None | x # xs \<Rightarrow> if in_cls k x then star k xs (\<lambda>r. c r g) else None)"
| "matcher ic (Seq a b) s g c = matcher ic a s g (\<lambda>r g'. matcher ic b r g' c)"
| "matcher ic (Alt a b) s g c =
     (case matcher ic a s g c of Some y \<Rightarrow> Some y | None \<Rightarrow> matcher ic b s g c)"
| "matcher ic (Opt a) s g c =
     (case matcher ic a s g c of Some y \<Rightarrow> Some y | None \<Rightarrow> c s g)"
| "matcher ic (Grp a) s g c =
     matcher ic a s g (\<lambda>r _. c r (Some (take (length s - length r) s)))"

text \<open>
  A match at the start of the text: the matched part, the capture and the rest.
\<close>

definition match_here :: "bool \<Rightarrow> rx \<Rightarrow> string \<Rightarrow> (string \<times> string option \<times> string) option" where
  "match_here ic r s =
     matcher ic r s None (\<lambda>rest g. Some (take (length s - length rest) s, g, rest))"

text \<open>
  \<open>RegExp.prototype.exec\<close> without the \<open>g\<close> flag (also \<open>String.prototype.match\<close>):
  the leftmost match, as the matched text (index 0 of the result) and the capture
  (index 1).
\<close>

fun regex_exec :: "bool \<Rightarrow> rx \<Rightarrow> string \<Rightarrow> (string \<times> string option) option" where
  "regex_exec ic r [] =
     (case match_here ic r [] of None \<Rightarrow> None | Some (t, g, rest) \<Rightarrow> Some (t, g))"
| "regex_exec ic r (x # xs) =
     (case match_here ic r (x # xs) of
        None \<Rightarrow> regex_exec ic r xs
      | Some (t, g, rest) \<Rightarrow> Some (t, g))"

definition regex_test :: "bool \<Rightarrow> rx \<Rightarrow> string \<Rightarrow> bool" where
  "regex_test ic r s = (regex_exec ic r s \<noteq> None)"

text \<open>
  \<open>text.replace(pattern, '')\<close> for a pattern with the \<open>g\<close> flag: every match, found from
  left to right, is deleted.  An empty match deletes nothing and the search moves on by
  one code unit.
\<close>

fun remove_all :: "bool \<Rightarrow> rx \<Rightarrow> string \<Rightarrow> string" where
  "remove_all ic r [] = []"
| "remove_all ic r (x # xs) =
     (case match_here ic r (x # xs) of
        None \<Rightarrow> x # remove_all ic r xs
      | Some (t, g, rest) \<Rightarrow>
          if length rest < length (x # xs) then remove_all ic r rest else x # remove_all ic r xs)"

text \<open>Notation for the shapes most patterns have: \<open>a|b|c\<close>, \<open>a.*b.*c\<close> and \<open>abc\<close>.\<close>

fun alt :: "rx list \<Rightarrow> rx" where
  "alt [a] = a"
| "alt (a # b # bs) = Alt a (alt (b # bs))"

definition lits :: "string list \<Rightarrow> rx" where
  "lits ws = alt (map Lit ws)"

fun gap :: "rx list \<Rightarrow> rx" where
  "gap [a] = a"
| "gap (a # b # bs) = Seq a (Seq (Star Dot) (gap (b # bs)))"

definition words :: "string list \<Rightarrow> rx" where
  "words ws = gap (map Lit ws)"

fun seq :: "rx list \<Rightarrow> rx" where
  "seq [a] = a"
| "seq (a # b # bs) = Seq a (seq (b # bs))"

section \<open>Values, exceptions and the world outside\<close>

text \<open>
  The values of the program.  What arrives from outside, the body of a request and the
  answer of a remote service, is JSON data.  \<open>JFun\<close> is a function of the standard
  library, by its name: the program meets one where it reads a property that a value
  inherits, as in \<open>data.link\<close> for a string \<open>data\<close>.
\<close>

datatype jsval =
    JUndefined | JNull | JBool bool | JNum real | JStr string
  | JArr "jsval list" | JObj "(string \<times> jsval) list" | JFun string

fun truthy :: "jsval \<Rightarrow> bool" where
  "truthy JUndefined = False"
| "truthy JNull = False"
| "truthy (JBool b) = b"
| "truthy (JNum n) = (n \<noteq> 0)"
| "truthy (JStr s) = (s \<noteq> [])"
| "truthy (JArr xs) = True"
| "truthy (JObj kvs) = True"
| "truthy (JFun f) = True"

fun is_string :: "jsval \<Rightarrow> bool" where
  "is_string (JStr s) = True"
| "is_string v = False"

fun the_string :: "jsval \<Rightarrow> string" where
  "the_string (JStr s) = s"
| "the_string v = []"

fun is_fun :: "jsval \<Rightarrow> bool" where
  "is_fun (JFun f) = True"
| "is_fun v = False"

datatype exn = TypeError | AxiosError | Error string

text \<open>
  The methods that a value inherits from \<open>Object.prototype\<close>, \<open>String.prototype\<close>,
  \<open>Array.prototype\<close>, \<open>Number.prototype\<close>, \<open>Boolean.prototype\<close> and
  \<open>Function.prototype\<close> (ECMAScript 2024 with its annex B).
\<close>

definition object_methods :: "string list" where
  "object_methods =
     [''hasOwnProperty'', ''isPrototypeOf'', ''propertyIsEnumerable'', ''toLocaleString'',
      ''toString'', ''valueOf'', ''__defineGetter__'', ''__defineSetter__'',
      ''__lookupGetter__'', ''__lookupSetter__'']"

definition string_methods :: "string list" where
  "string_methods =
     [''at'', ''charAt'', ''charCodeAt'', ''codePointAt'', ''concat'', ''endsWith'', ''includes'',
      ''indexOf'', ''isWellFormed'', ''lastIndexOf'', ''localeCompare'', ''match'', ''matchAll'',
      ''normalize'', ''padEnd'', ''padStart'', ''repeat'', ''replace'', ''replaceAll'', ''search'',
      ''slice'', ''split'', ''startsWith'', ''substr'', ''substring'', ''toLocaleLowerCase'',
      ''toLocaleUpperCase'', ''toLowerCase'', ''toUpperCase'', ''toWellFormed'', ''trim'',
      ''trimEnd'', ''trimStart'', ''anchor'', ''big'', ''blink'', ''bold'', ''fixed'', ''fontcolor'',
      ''fontsize'', ''italics'', ''link'', ''small'', ''strike'', ''sub'', ''sup'']"

definition array_methods :: "string list" where
  "array_methods =
     [''at'', ''concat'', ''copyWithin'', ''entries'', ''every'', ''fill'', ''filter'', ''find'',
      ''findIndex'', ''findLast'', ''findLastIndex'', ''flat'', ''flatMap'', ''forEach'',
      ''includes'', ''indexOf'', ''join'', ''keys'', ''lastIndexOf'', ''map'', ''pop'', ''push'',
      ''reduce'', ''reduceRight'', ''reverse'', ''shift'', ''slice'', ''some'', ''sort'', ''splice'',
      ''toReversed'', ''toSorted'', ''toSpliced'', ''unshift'', ''values'', ''with'']"

definition number_methods :: "string list" where
  "number_methods = [''toExponential'', ''toFixed'', ''toPrecision'']"

definition function_methods :: "string list" where
  "function_methods = [''apply'', ''bind'', ''call'']"

text \<open>
  A property that is not the value's own: the constructor, a method, or \<open>undefined\<close>.
  \<open>trimLeft\<close> and \<open>trimRight\<close> are the functions \<open>trimStart\<close> and \<open>trimEnd\<close> under
  another key.
\<close>

definition inherited :: "string \<Rightarrow> string list \<Rightarrow> string \<Rightarrow> jsval" where
  "inherited constructor methods k =
     (if k = ''constructor'' then JFun constructor
      else if k \<in> set methods \<or> k \<in> set object_methods then JFun k
      else JUndefined)"

definition inherited_string :: "string \<Rightarrow> jsval" where
  "inherited_string k =
     (if k = ''trimLeft'' then JFun ''trimStart''
      else if k = ''trimRight'' then JFun ''trimEnd''
      else inherited ''String'' string_methods k)"

text \<open>An array index as a property key: a decimal numeral without a leading zero.\<close>

definition is_digit :: "char \<Rightarrow> bool" where
  "is_digit c = (48 \<le> (of_char c :: nat) \<and> (of_char c :: nat) \<le> 57)"

definition array_index :: "string \<Rightarrow> nat option" where
  "array_index k =
     (if k \<noteq> [] \<and> list_all is_digit k \<and> (k = ''0'' \<or> hd k \<noteq> CHR ''0'')
      then Some (foldl (\<lambda>n c. 10 * n + (of_char c - 48)) 0 k)
      else None)"

text \<open>
  Reading a property: a \<open>TypeError\<close> on \<open>undefined\<close> and \<open>null\<close>; otherwise the value's
  own property, or the inherited one, or \<open>undefined\<close>.  Of a function the name is kept;
  the number of its parameters (\<open>length\<close>), the further properties of a constructor
  and the accessor \<open>__proto__\<close> are not, and the program reads none of them.
\<close>

fun get :: "jsval \<Rightarrow> string \<Rightarrow> exn + jsval" where
  "get JUndefined k = Inl TypeError"
| "get JNull k = Inl TypeError"
| "get (JObj kvs) k =
     Inr (case map_of kvs k of None \<Rightarrow> inherited ''Object'' [] k | Some v \<Rightarrow> v)"
| "get (JArr xs) k =
     Inr (if k = ''length'' then JNum (real (length xs))
          else case array_index k of
                 Some i \<Rightarrow> if i < length xs then xs ! i else JUndefined
               | None \<Rightarrow> inherited ''Array'' array_methods k)"
| "get (JStr s) k =
     Inr (if k = ''length'' then JNum (real (length s))
          else case array_index k of
                 Some i \<Rightarrow> if i < length s then JStr [s ! i] else JUndefined
               | None \<Rightarrow> inherited_string k)"
| "get (JNum n) k = Inr (inherited ''Number'' number_methods k)"
| "get (JBool b) k = Inr (inherited ''Boolean'' [] k)"
| "get (JFun f) k =
     (if k = ''caller'' \<or> k = ''arguments'' then Inl TypeError
      else Inr (if k = ''name'' then JStr f else inherited ''Function'' function_methods k))"

text \<open>Reading index \<open>0\<close>.\<close>

fun first :: "jsval \<Rightarrow> exn + jsval" where
  "first JUndefined = Inl TypeError"
| "first JNull = Inl TypeError"
| "first (JArr xs) = Inr (case xs of [] \<Rightarrow> JUndefined | x # _ \<Rightarrow> x)"
| "first (JStr s) = Inr (case s of [] \<Rightarrow> JUndefined | x # _ \<Rightarrow> JStr [x])"
| "first (JObj kvs) = Inr (case map_of kvs ''0'' of None \<Rightarrow> JUndefined | Some v \<Rightarrow> v)"
| "first v = Inr JUndefined"

text \<open>A property of a value that is known to be an object of the program's own making.\<close>

definition field :: "(string \<times> jsval) list \<Rightarrow> string \<Rightarrow> jsval" where
  "field kvs k = (case map_of kvs k of None \<Rightarrow> JUndefined | Some v \<Rightarrow> v)"

text \<open>Sequencing of steps that may throw, and \<open>try { ... } catch (error) { ... }\<close>.\<close>

definition bind_exn :: "exn + 'a \<Rightarrow> ('a \<Rightarrow> exn + 'b) \<Rightarrow> exn + 'b" where
  "bind_exn x f = (case x of Inl e \<Rightarrow> Inl e | Inr v \<Rightarrow> f v)"

definition try_catch :: "exn + 'a \<Rightarrow> (exn \<Rightarrow> exn + 'a) \<Rightarrow> exn + 'a" where
  "try_catch body handler = (case body of Inl e \<Rightarrow> handler e | Inr v \<Rightarrow> Inr v)"

text \<open>An \<open>axios\<close> request either rejects (network failure, timeout, error status) or
  resolves with a response, of which the program reads \<open>data\<close>.\<close>

datatype 'a outcome = Rejected | Resolved 'a

fun await :: "'a outcome \<Rightarrow> exn + 'a" where
  "await Rejected = Inl AxiosError"
| "await (Resolved d) = Inr d"

text \<open>
  The world of one request: what each remote service answers, the environment
  variables, the clock, and the results of \<open>Math.random()\<close> in call order.  Library
  functions whose code is not part of the program are taken as they come:
  \<open>JSON.stringify\<close>, the percent-encoding of a text (\<open>uri_encode\<close>), the text of a number
  and of a function (\<open>String_of\<close>), the number that a text stands for (\<open>Number_of\<close>, \<open>None\<close>
  for \<open>NaN\<close>), what the call of a method gives that an object holds as its own
  \<open>toString\<close> or \<open>valueOf\<close> (\<open>method_text\<close>; JSON data holds no function),
  \<open>Buffer.from\<close> and \<open>FormData.append\<close>.  The text-to-speech service answers with the
  audio; \<open>elevenlabs\<close> gives it in base64 already.
\<close>

record world =
  gpt4o :: "string \<Rightarrow> jsval outcome"
  openai :: "string \<Rightarrow> jsval outcome"
  elevenlabs :: "jsval \<Rightarrow> string outcome"
  acrcloud :: "jsval \<Rightarrow> jsval outcome"
  youtube_search :: "string \<Rightarrow> jsval outcome"
  ytmp3 :: "jsval \<Rightarrow> jsval outcome"
  ytmp4 :: "jsval \<Rightarrow> jsval outcome"
  dlmp3 :: "jsval \<Rightarrow> jsval outcome"
  ELEVENLABS_API_KEY :: "string option"
  OPENAI_API_KEY :: "string option"
  ACRCLOUD_ACCESS_KEY :: "string option"
  ACRCLOUD_SECRET_KEY :: "string option"
  now :: string
  uuidv4 :: string
  random :: "nat \<Rightarrow> real"
  stringify :: "jsval \<Rightarrow> string"
  uri_encode :: "string \<Rightarrow> string"
  String_of :: "jsval \<Rightarrow> string"
  Number_of :: "jsval \<Rightarrow> real option"
  method_text :: "jsval \<Rightarrow> exn + string"
  Buffer_from :: "jsval \<Rightarrow> exn + unit"
  FormData_append :: "jsval \<Rightarrow> exn + unit"

text \<open>An environment variable is falsy when it is not set or empty.\<close>

fun is_set :: "string option \<Rightarrow> bool" where
  "is_set None = False"
| "is_set (Some v) = (v \<noteq> [])"

text \<open>
  A value inside a template literal of a handler.  The text of a value that is not a
  string, \<open>undefined\<close>, \<open>null\<close> or a boolean is the world's; that the conversion of an
  object can throw is part of \<open>to_string\<close> below, which the clients use.
\<close>

fun to_str :: "world \<Rightarrow> jsval \<Rightarrow> string" where
  "to_str w (JStr s) = s"
| "to_str w JUndefined = ''undefined''"
| "to_str w JNull = ''null''"
| "to_str w (JBool b) = (if b then ''true'' else ''false'')"
| "to_str w v = String_of w v"

text \<open>\<open>v === undefined || v === null\<close>.\<close>

definition nullish :: "jsval \<Rightarrow> bool" where
  "nullish v = (v = JUndefined \<or> v = JNull)"

text \<open>
  The conversion of a value to a string as the language defines it, in a template
  literal, under \<open>+\<close> with a string, and of the argument of \<open>encodeURIComponent\<close>.  An
  array is joined with commas.  An object gives \<open>[object Object]\<close>, unless it has a
  property \<open>toString\<close> of its own: JSON data cannot hold a function there, and then the
  conversion throws a \<open>TypeError\<close>, since the inherited \<open>valueOf\<close> gives the object back.
  \<open>join\<close> is \<open>Array.prototype.join\<close>, where \<open>undefined\<close> and \<open>null\<close> give the empty string.
\<close>

definition own_method :: "(string \<times> jsval) list \<Rightarrow> bool" where
  "own_method kvs =
     ((case map_of kvs ''toString'' of None \<Rightarrow> False | Some m \<Rightarrow> is_fun m) \<or>
      (case map_of kvs ''valueOf'' of None \<Rightarrow> False | Some m \<Rightarrow> is_fun m))"

fun to_string :: "world \<Rightarrow> jsval \<Rightarrow> exn + string"
and join :: "world \<Rightarrow> string \<Rightarrow> jsval list \<Rightarrow> exn + string" where
  "to_string w (JStr s) = Inr s"
| "to_string w JUndefined = Inr ''undefined''"
| "to_string w JNull = Inr ''null''"
| "to_string w (JBool b) = Inr (if b then ''true'' else ''false'')"
| "to_string w (JNum n) = Inr (String_of w (JNum n))"
| "to_string w (JFun f) = Inr (String_of w (JFun f))"
| "to_string w (JArr xs) = join w '','' xs"
| "to_string w (JObj kvs) =
     (if own_method kvs then method_text w (JObj kvs)
      else if map_of kvs ''toString'' = None then Inr ''[object Object]''
      else Inl TypeError)"
| "join w sep [] = Inr []"
| "join w sep [v] = (if nullish v then Inr [] else to_string w v)"
| "join w sep (v # u # vs) =
     bind_exn (if nullish v then Inr [] else to_string w v) (\<lambda>s.
     bind_exn (join w sep (u # vs)) (\<lambda>rest. Inr (s @ sep @ rest)))"

text \<open>
  \<open>encodeURIComponent(v)\<close> converts its argument and encodes the text.  It throws a
  \<open>URIError\<close> on a text with a lone surrogate; the texts here are of eight-bit code
  units and have none, so the conversion is the one step that can throw.
\<close>

definition encodeURIComponent :: "world \<Rightarrow> jsval \<Rightarrow> exn + string" where
  "encodeURIComponent w v = bind_exn (to_string w v) (\<lambda>s. Inr (uri_encode w s))"

text \<open>
  \<open>v > 0\<close>.  An array and an object are converted first; for an object the conversion
  to a number throws where the conversion to a string does.
\<close>

definition positive_text :: "world \<Rightarrow> string \<Rightarrow> bool" where
  "positive_text w s = (case Number_of w (JStr s) of None \<Rightarrow> False | Some n \<Rightarrow> 0 < n)"

fun positive :: "world \<Rightarrow> jsval \<Rightarrow> exn + bool" where
  "positive w (JNum n) = Inr (0 < n)"
| "positive w (JBool b) = Inr b"
| "positive w JUndefined = Inr False"
| "positive w JNull = Inr False"
| "positive w (JFun f) = Inr False"
| "positive w (JStr s) = Inr (positive_text w s)"
| "positive w (JArr xs) = bind_exn (to_string w (JArr xs)) (\<lambda>s. Inr (positive_text w s))"
| "positive w (JObj kvs) =
     (if own_method kvs then bind_exn (method_text w (JObj kvs)) (\<lambda>s. Inr (positive_text w s))
      else if map_of kvs ''toString'' = None then Inr False
      else Inl TypeError)"

text \<open>\<open>xs[Math.floor(r * xs.length)]\<close>, \<open>undefined\<close> outside the array.\<close>

definition pick :: "string list \<Rightarrow> real \<Rightarrow> jsval" where
  "pick xs r =
     (let i = \<lfloor>r * real (length xs)\<rfloor>
      in if 0 \<le> i \<and> i < int (length xs) then JStr (xs ! nat i) else JUndefined)"

text \<open>The body of a request to the main endpoint; a field that is not sent is
  \<open>undefined\<close>.  A default of the destructuring pattern applies to \<open>undefined\<close> only.\<close>

record body =
  message :: jsval
  sessionId :: jsval
  voiceEnabled :: jsval
  voice :: jsval
  audio_data :: jsval
  audio_type :: jsval

definition dflt :: "jsval \<Rightarrow> jsval \<Rightarrow> jsval" where
  "dflt d v = (if v = JUndefined then d else v)"

text \<open>The client functions that a request invoked, in order, with their argument.\<close>

datatype call =
    ChatCompletion string
  | TextToSpeech jsval
  | MediaSearch jsval
  | MediaDownloadMP3 jsval
  | MediaDownloadMP4 jsval
  | SpeechToText jsval

text \<open>What the handler sends: the status and the JSON body.\<close>

type_synonym reply = "nat \<times> (string \<times> jsval) list"

text \<open>
  A handler runs steps that may throw and that may invoke a client function; the
  invocations are logged.
\<close>

type_synonym 'a io = "call list \<Rightarrow> (exn + 'a) \<times> call list"

definition return :: "'a \<Rightarrow> 'a io" where
  "return x = (\<lambda>cs. (Inr x, cs))"

definition lift :: "exn + 'a \<Rightarrow> 'a io" where
  "lift r = (\<lambda>cs. (r, cs))"

definition invoke :: "call \<Rightarrow> (exn + 'a) \<Rightarrow> 'a io" where
  "invoke c r = (\<lambda>cs. (r, cs @ [c]))"

definition bind :: "'a io \<Rightarrow> ('a \<Rightarrow> 'b io) \<Rightarrow> 'b io" where
  "bind x f = (\<lambda>cs. case x cs of (Inl e, cs') \<Rightarrow> (Inl e, cs') | (Inr v, cs') \<Rightarrow> f v cs')"

text \<open>\<open>a || b\<close>, \<open>v?.k\<close> and \<open>v?.[0]\<close>.\<close>

definition or_else :: "jsval \<Rightarrow> jsval \<Rightarrow> jsval" where
  "or_else a b = (if truthy a then a else b)"

definition opt_get :: "jsval \<Rightarrow> string \<Rightarrow> exn + jsval" where
  "opt_get v k = (if nullish v then Inr JUndefined else get v k)"

definition opt_first :: "jsval \<Rightarrow> exn + jsval" where
  "opt_first v = (if nullish v then Inr JUndefined else first v)"

section \<open>Remote capability clients\<close>

subsection \<open>Chat completion\<close>

text \<open>\<open>GiftedAIService.getAIResponse\<close> (\<open>server.js\<close>, first program; the second and the
  fifth program of \<open>part_000\<close> have the same function).  \<open>JSON.stringify\<close> gives
  \<open>undefined\<close> for a function.\<close>

definition getAIResponse :: "world \<Rightarrow> string \<Rightarrow> exn + jsval" where
  "getAIResponse w prompt =
     try_catch
       (bind_exn (await (gpt4o w prompt)) (\<lambda>data.
          if truthy data then
            if is_string data then Inr data
            else bind_exn (get data ''result'') (\<lambda>result.
              if truthy result then Inr result
              else bind_exn (get data ''response'') (\<lambda>response.
                if truthy response then Inr response
                else bind_exn (get data ''message'') (\<lambda>msg.
                  if truthy msg then Inr msg
                  else if is_fun data then Inr JUndefined
                  else Inr (JStr (stringify w data)))))
          else Inr JNull))
       (\<lambda>error. Inr JNull)"

text \<open>\<open>GiftedAIService.enhanceResponse\<close> (\<open>part_000\<close>, first program).\<close>

definition enhanceResponse_p1 :: "world \<Rightarrow> string \<Rightarrow> exn + jsval" where
  "enhanceResponse_p1 w prompt =
     try_catch
       (bind_exn (await (gpt4o w prompt)) (\<lambda>data.
          if truthy data
          then bind_exn (get data ''response'') (\<lambda>response.
                 if truthy response
                 then Inr (JObj [(''success'', JBool True), (''text'', response),
                                 (''tool'', JStr ''GiftedTech GPT-4o API'')])
                 else Inr JNull)
          else Inr JNull))
       (\<lambda>error. Inr JNull)"

text \<open>\<open>OpenAIService.enhanceResponse\<close> (\<open>server.js\<close>, second program).\<close>

definition openai_configured_srv2 :: "string option \<Rightarrow> bool" where
  "openai_configured_srv2 key =
     (case key of
        None \<Rightarrow> False
      | Some k \<Rightarrow> k \<noteq> [] \<and> k \<noteq> ''your_openai_api_key_here'' \<and> \<not> includes_str k ''your-actual'')"

definition enhanceResponse_srv2 :: "world \<Rightarrow> string \<Rightarrow> exn + jsval" where
  "enhanceResponse_srv2 w prompt =
     try_catch
       (if \<not> openai_configured_srv2 (OPENAI_API_KEY w) then Inr JNull
        else bind_exn (await (openai w prompt)) (\<lambda>data.
             bind_exn (get data ''choices'') (\<lambda>choices.
             bind_exn (first choices) (\<lambda>choice.
             bind_exn (get choice ''message'') (\<lambda>msg.
             bind_exn (get msg ''content'') (\<lambda>content.
               Inr (JObj [(''success'', JBool True), (''text'', content),
                          (''tool'', JStr ''OpenAI API'')])))))))
       (\<lambda>error. Inr JNull)"

subsection \<open>Text to speech\<close>

text \<open>\<open>ElevenLabsService.generateSpeech\<close> (\<open>server.js\<close>, first program).\<close>

definition generateSpeech_srv1 :: "world \<Rightarrow> jsval \<Rightarrow> exn + jsval" where
  "generateSpeech_srv1 w text =
     try_catch
       (if \<not> is_set (ELEVENLABS_API_KEY w) then Inl (Error ''ElevenLabs API key not configured'')
        else bind_exn (await (elevenlabs w text)) (\<lambda>audio.
               Inr (JObj [(''success'', JBool True), (''audio'', JStr audio),
                          (''format'', JStr ''audio/mpeg'')])))
       (\<lambda>error. Inr (JObj [(''success'', JBool False),
                             (''error'', JStr ''Voice generation failed'')]))"

text \<open>\<open>VoiceService.generateSpeech\<close> (\<open>part_000\<close>, first program; the second program of
  \<open>server.js\<close> has the same function).\<close>

definition generateSpeech_p1 :: "world \<Rightarrow> jsval \<Rightarrow> exn + jsval" where
  "generateSpeech_p1 w text =
     try_catch
       (if \<not> is_set (ELEVENLABS_API_KEY w) \<or>
           includes_str (the (ELEVENLABS_API_KEY w)) ''your_elevenlabs''
        then Inr (JObj [(''success'', JBool False),
                        (''error'', JStr ''Voice service not configured'')])
        else bind_exn (await (elevenlabs w text)) (\<lambda>audio.
               Inr (JObj [(''success'', JBool True), (''audio'', JStr audio),
                          (''format'', JStr ''audio/mpeg''),
                          (''voiceModel'', JStr ''ElevenLabs'')])))
       (\<lambda>error. Inr (JObj [(''success'', JBool False),
                             (''error'', JStr ''Voice service temporarily unavailable'')]))"

text \<open>\<open>ElevenLabsService.generateSpeech\<close> (\<open>part_000\<close>, fifth program);
  \<open>text.substring(0, 5000)\<close> throws on a value that is not a string.\<close>

definition generateSpeech_p5 :: "world \<Rightarrow> jsval \<Rightarrow> exn + jsval" where
  "generateSpeech_p5 w text =
     try_catch
       (if \<not> is_set (ELEVENLABS_API_KEY w) \<or>
           includes_str (the (ELEVENLABS_API_KEY w)) ''your_''
        then Inr (JObj [(''success'', JBool False),
                        (''error'', JStr ''Voice service not configured'')])
        else if \<not> is_string text then Inl TypeError
        else bind_exn (await (elevenlabs w (JStr (take 5000 (the_string text))))) (\<lambda>audio.
               Inr (JObj [(''success'', JBool True), (''audio'', JStr audio),
                          (''format'', JStr ''audio/mpeg'')])))
       (\<lambda>error. Inr (JObj [(''success'', JBool False),
                             (''error'', JStr ''Voice service temporarily unavailable'')]))"

subsection \<open>Media download\<close>

text \<open>\<open>YouTubeDownloadService\<close> (\<open>server.js\<close>, first program).  The service answers for
  the URL, which reaches it encoded.\<close>

definition download_failed_srv1 :: jsval where
  "download_failed_srv1 = JObj [(''success'', JBool False), (''error'', JStr ''Download failed'')]"

definition downloadMP3_srv1 :: "world \<Rightarrow> jsval \<Rightarrow> exn + jsval" where
  "downloadMP3_srv1 w youtubeUrl =
     try_catch
       (bind_exn (encodeURIComponent w youtubeUrl) (\<lambda>encodedUrl.
        bind_exn (await (ytmp3 w youtubeUrl)) (\<lambda>data.
          Inr (JObj [(''success'', JBool True), (''data'', data)]))))
       (\<lambda>error. Inr download_failed_srv1)"

definition downloadMP4_srv1 :: "world \<Rightarrow> jsval \<Rightarrow> exn + jsval" where
  "downloadMP4_srv1 w youtubeUrl =
     try_catch
       (bind_exn (encodeURIComponent w youtubeUrl) (\<lambda>encodedUrl.
        bind_exn (await (ytmp4 w youtubeUrl)) (\<lambda>data.
          Inr (JObj [(''success'', JBool True), (''data'', data)]))))
       (\<lambda>error. Inr download_failed_srv1)"

definition directMP3_srv1 :: "world \<Rightarrow> jsval \<Rightarrow> exn + jsval" where
  "directMP3_srv1 w youtubeUrl =
     try_catch
       (bind_exn (encodeURIComponent w youtubeUrl) (\<lambda>encodedUrl.
        bind_exn (await (dlmp3 w youtubeUrl)) (\<lambda>data.
          Inr (JObj [(''success'', JBool True), (''data'', data)]))))
       (\<lambda>error. Inr download_failed_srv1)"

text \<open>\<open>YouTubeDownloadService\<close> (\<open>part_000\<close>, second program).  The URL comes from
  \<open>searchSong\<close> or from the body of a request, where it can be any truthy value;
  \<open>includes\<close> is there for a string and for an array only.\<close>

definition url_includes :: "jsval \<Rightarrow> string \<Rightarrow> exn + bool" where
  "url_includes v k =
     (case v of
        JStr s \<Rightarrow> Inr (includes_str s k)
      | JArr xs \<Rightarrow> Inr (JStr k \<in> set xs)
      | _ \<Rightarrow> Inl TypeError)"

definition download_link_p2 :: "jsval \<Rightarrow> exn + jsval" where
  "download_link_p2 data =
     (if truthy data then
        bind_exn (get data ''download_link'') (\<lambda>download_link.
          if truthy download_link then Inr download_link
          else bind_exn (get data ''url'') (\<lambda>url.
            if truthy url then Inr url
            else bind_exn (get data ''link'') (\<lambda>link.
              if truthy link then Inr link
              else if is_string data \<and> includes_str (the_string data) ''http'' then Inr data
              else bind_exn (get data ''data'') (\<lambda>inner.
                if truthy inner
                then bind_exn (get inner ''download_link'') (\<lambda>inner_link.
                       if truthy inner_link then Inr inner_link else Inr (JStr []))
                else Inr (JStr [])))))
      else Inr (JStr []))"

definition title_p2 :: "jsval \<Rightarrow> exn + jsval" where
  "title_p2 data =
     (if truthy data then
        bind_exn (get data ''title'') (\<lambda>title.
          if truthy title then Inr title
          else bind_exn (get data ''data'') (\<lambda>inner.
            if truthy inner
            then bind_exn (get inner ''title'') (\<lambda>inner_title.
                   if truthy inner_title then Inr inner_title else Inr (JStr ''YouTube Audio''))
            else Inr (JStr ''YouTube Audio'')))
      else Inr (JStr ''YouTube Audio''))"

definition downloadMP3_p2 :: "world \<Rightarrow> jsval \<Rightarrow> exn + jsval" where
  "downloadMP3_p2 w youtubeUrl =
     try_catch
       (bind_exn (url_includes youtubeUrl ''/results?'') (\<lambda>search_page.
          if search_page
          then Inr (JObj [(''success'', JBool False),
                 (''error'', JStr ''Please provide a direct YouTube video URL, not a search page.''),
                 (''note'', JStr ''Go to YouTube, find the video, and copy the URL from the address bar'')])
          else bind_exn (encodeURIComponent w youtubeUrl) (\<lambda>encodedUrl.
               bind_exn (await (ytmp3 w youtubeUrl)) (\<lambda>data.
               bind_exn (download_link_p2 data) (\<lambda>downloadLink.
               bind_exn (title_p2 data) (\<lambda>title.
                 if \<not> truthy downloadLink
                 then Inr (JObj [(''success'', JBool True), (''raw_data'', data), (''title'', title),
                        (''format'', JStr ''MP3''), (''quality'', JStr ''128kbps''),
                        (''note'', JStr ''Download data received - process manually''),
                        (''creator'', JStr ''Bruce Bera'')])
                 else Inr (JObj [(''success'', JBool True), (''download_link'', downloadLink),
                        (''title'', title), (''format'', JStr ''MP3''), (''quality'', JStr ''128kbps''),
                        (''note'', JStr ''Click to download''),
                        (''creator'', JStr ''Bruce Bera'')])))))))
       (\<lambda>error. Inr (JObj [(''success'', JBool False),
          (''error'', JStr ''MP3 download failed. The service might be temporarily unavailable.''),
          (''creator'', JStr ''Bruce Bera'')]))"

definition downloadMP4_p2 :: "world \<Rightarrow> jsval \<Rightarrow> exn + jsval" where
  "downloadMP4_p2 w youtubeUrl =
     try_catch
       (bind_exn (encodeURIComponent w youtubeUrl) (\<lambda>encodedUrl.
        bind_exn (await (ytmp4 w youtubeUrl)) (\<lambda>data.
        bind_exn
          (if truthy data then
             bind_exn (get data ''download_link'') (\<lambda>download_link.
               if truthy download_link then Inr download_link
               else bind_exn (get data ''url'') (\<lambda>url.
                 if truthy url then Inr url
                 else bind_exn (get data ''link'') (\<lambda>link.
                   if truthy link then Inr link else Inr (JStr []))))
           else Inr (JStr [])) (\<lambda>downloadLink.
        bind_exn
          (if truthy data then
             bind_exn (get data ''title'') (\<lambda>title.
               if truthy title then Inr title else Inr (JStr ''YouTube Video''))
           else Inr (JStr ''YouTube Video'')) (\<lambda>title.
          Inr (JObj [(''success'', JBool True), (''download_link'', or_else downloadLink youtubeUrl),
                 (''title'', title), (''format'', JStr ''MP4''), (''quality'', JStr ''720p''),
                 (''note'', JStr ''Click to download''), (''creator'', JStr ''Bruce Bera'')]))))))
       (\<lambda>error. Inr (JObj [(''success'', JBool False), (''error'', JStr ''MP4 download failed''),
                             (''creator'', JStr ''Bruce Bera'')]))"

subsection \<open>Media search\<close>

text \<open>\<open>YouTubeSearchService.searchSong\<close> (\<open>part_000\<close>, second program).  The inner \<open>try\<close>
  returns the first video or gives way to the search-page result.\<close>

definition clean_rx_p2 :: rx where
  "clean_rx_p2 = lits [''download'', ''get'', ''song'', ''music'', ''track'', ''audio'']"

definition first_video :: "world \<Rightarrow> jsval \<Rightarrow> exn + jsval option" where
  "first_video w data =
     (if truthy data then
        bind_exn (get data ''videos'') (\<lambda>videos.
          if truthy videos then
            bind_exn (get videos ''length'') (\<lambda>len.
            bind_exn (positive w len) (\<lambda>some.
              if some then
                bind_exn (first videos) (\<lambda>video.
                bind_exn (get video ''title'') (\<lambda>title.
                bind_exn (get video ''id'') (\<lambda>id.
                bind_exn (to_string w id) (\<lambda>id_text.
                bind_exn (get video ''thumbnail'') (\<lambda>thumbnail.
                bind_exn (get video ''duration'') (\<lambda>duration.
                  Inr (Some (JObj [(''success'', JBool True), (''title'', title), (''videoId'', id),
                    (''url'', JStr (''https://www.youtube.com/watch?v='' @ id_text)),
                    (''thumbnail'', thumbnail), (''duration'', duration)]))))))))
              else Inr None))
          else Inr None)
      else Inr None)"

definition searchSong_p2 :: "world \<Rightarrow> jsval \<Rightarrow> exn + jsval" where
  "searchSong_p2 w songQuery =
     try_catch
       (if \<not> is_string songQuery then Inl TypeError
        else
          let cleanQuery = trim (remove_all True clean_rx_p2 (the_string songQuery));
              searchQuery = cleanQuery @ '' official audio''
          in bind_exn (encodeURIComponent w (JStr searchQuery)) (\<lambda>encodedQuery.
             bind_exn
               (try_catch (bind_exn (await (youtube_search w searchQuery)) (first_video w))
                          (\<lambda>searchError. Inr None))
               (\<lambda>found. case found of
                    Some video \<Rightarrow> Inr video
                  | None \<Rightarrow>
                      bind_exn (encodeURIComponent w songQuery) (\<lambda>encoded.
                        Inr (JObj [(''success'', JBool True), (''title'', songQuery),
                          (''url'', JStr (''https://www.youtube.com/results?search_query='' @ encoded)),
                          (''note'', JStr ''Search results - select video manually'')])))))
       (\<lambda>error. Inr (JObj [(''success'', JBool False),
                             (''error'', JStr ''Search service unavailable'')]))"

text \<open>
  \<open>YouTubeSearchService.searchSong\<close> (\<open>part_000\<close>, fifth program).  The query is
  converted to a string by \<open>songQuery + " official audio"\<close>.  The \<open>catch\<close> block builds
  the address of the search page with \<open>encodeURIComponent(songQuery)\<close> once more, outside
  any \<open>try\<close>: what that call throws leaves the function.
\<close>

definition searchSong_p5 :: "world \<Rightarrow> jsval \<Rightarrow> exn + jsval" where
  "searchSong_p5 w songQuery =
     try_catch
       (bind_exn (to_string w songQuery) (\<lambda>query.
        bind_exn (encodeURIComponent w (JStr (query @ '' official audio''))) (\<lambda>encodedQuery.
        bind_exn (await (youtube_search w (query @ '' official audio''))) (\<lambda>data.
        bind_exn (first_video w data) (\<lambda>found.
          case found of
            Some video \<Rightarrow> Inr video
          | None \<Rightarrow>
              bind_exn (encodeURIComponent w songQuery) (\<lambda>encoded.
                Inr (JObj [(''success'', JBool True), (''title'', songQuery),
                  (''url'', JStr (''https://www.youtube.com/results?search_query='' @ encoded)),
                  (''note'', JStr ''Search results - click to find video'')])))))))
       (\<lambda>error.
          bind_exn (encodeURIComponent w songQuery) (\<lambda>encoded.
            Inr (JObj [(''success'', JBool True), (''title'', songQuery),
              (''url'', JStr (''https://www.youtube.com/results?search_query='' @ encoded)),
              (''note'', JStr ''Search on YouTube'')])))"

subsection \<open>Music recognition\<close>

text \<open>\<open>MusicRecognitionService.identifySong\<close> (\<open>server.js\<close>, first program).\<close>

fun map_exn :: "('a \<Rightarrow> exn + 'b) \<Rightarrow> 'a list \<Rightarrow> exn + 'b list" where
  "map_exn f [] = Inr []"
| "map_exn f (x # xs) =
     bind_exn (f x) (\<lambda>y. bind_exn (map_exn f xs) (\<lambda>ys. Inr (y # ys)))"

text \<open>\<open>music.artists?.map(a => a.name).join(', ')\<close>: only an array has \<open>map\<close>.\<close>

definition artist_names :: "world \<Rightarrow> jsval \<Rightarrow> exn + jsval" where
  "artist_names w artists =
     (if nullish artists then Inr JUndefined
      else case artists of
             JArr xs \<Rightarrow> bind_exn (map_exn (\<lambda>a. get a ''name'') xs) (\<lambda>names.
                        bind_exn (join w '', '' names) (\<lambda>joined. Inr (JStr joined)))
           | _ \<Rightarrow> Inl TypeError)"

definition identifySong_srv1 :: "world \<Rightarrow> jsval \<Rightarrow> jsval \<Rightarrow> exn + jsval" where
  "identifySong_srv1 w audioBuffer mimeType =
     try_catch
       (if \<not> is_set (ACRCLOUD_ACCESS_KEY w) \<or> \<not> is_set (ACRCLOUD_SECRET_KEY w)
        then Inl (Error ''ACRCloud credentials not configured'')
        else if \<not> is_string mimeType then Inl TypeError
        else bind_exn (FormData_append w audioBuffer) (\<lambda>_.
             bind_exn (await (acrcloud w audioBuffer)) (\<lambda>data.
             bind_exn (get data ''status'') (\<lambda>status.
             bind_exn (get status ''code'') (\<lambda>code.
             bind_exn (opt_get data ''metadata'') (\<lambda>metadata.
             bind_exn (opt_get metadata ''music'') (\<lambda>musics.
             bind_exn (opt_first musics) (\<lambda>music.
               if code = JNum 0 \<and> truthy music then
                 bind_exn (get music ''title'') (\<lambda>title.
                 bind_exn (get music ''artists'') (\<lambda>artists.
                 bind_exn (artist_names w artists) (\<lambda>names.
                 bind_exn (get music ''album'') (\<lambda>album.
                 bind_exn (opt_get album ''name'') (\<lambda>album_name.
                 bind_exn (get music ''duration_ms'') (\<lambda>duration.
                 bind_exn (get music ''label'') (\<lambda>label.
                   Inr (JObj [(''success'', JBool True),
                     (''song'', JObj [(''title'', title),
                        (''artist'', or_else names (JStr ''Unknown Artist'')),
                        (''album'', or_else album_name (JStr ''Unknown Album'')),
                        (''duration'', duration), (''label'', label)])]))))))))
               else Inr (JObj [(''success'', JBool False),
                               (''error'', JStr ''Song not recognized'')])))))))))
       (\<lambda>error. Inr (JObj [(''success'', JBool False),
                             (''error'', JStr ''Recognition service unavailable'')]))"

subsection \<open>Speech to text\<close>

text \<open>\<open>SpeechToTextService.convertAudioToText\<close> (\<open>part_000\<close>, fifth program): a fixed
  transcription, no remote call.\<close>

definition convertAudioToText :: "world \<Rightarrow> jsval \<Rightarrow> jsval \<Rightarrow> exn + jsval" where
  "convertAudioToText w audioBuffer mimeType =
     try_catch
       (bind_exn (FormData_append w audioBuffer) (\<lambda>_.
          Inr (JObj [(''success'', JBool True),
            (''text'', JStr ''I sent a voice message. Please respond to my voice input.''),
            (''note'', JStr ''Voice message received (simulated transcription)'')])))
       (\<lambda>error.
          Inr (JObj [(''success'', JBool True),
            (''text'', JStr ''I sent a voice message. Please respond.''),
            (''note'', JStr ''Voice message received'')]))"

section \<open>The first program of \<open>server.js\<close>\<close>

text \<open>\<open>/(https?:\/\/[^\s]+)/\<close>, the same in every program.\<close>

definition url_rx :: rx where
  "url_rx = seq [Lit ''http'', Opt (Lit ''s''), Lit ''://'', Plus NonWhiteSpace]"

definition identity_rx_srv1 :: rx where
  "identity_rx_srv1 =
     alt [words [''who'', ''created'', ''bera''], words [''who'', ''owns'', ''bera''],
          words [''who'', ''made'', ''you''], words [''who'', ''is'', ''your'', ''creator'']]"

definition download_rx :: rx where
  "download_rx =
     gap [lits [''download'', ''convert'', ''get'', ''save''],
          lits [''youtube'', ''video'', ''audio'', ''mp3'', ''mp4'']]"

definition youtube_rx :: rx where
  "youtube_rx = lits [''yt'', ''youtu.be'', ''youtube.com'']"

definition recognition_rx :: rx where
  "recognition_rx =
     alt [words [''what'', ''song''], words [''identify'', ''song''], Lit ''shazam'',
          words [''recognize'', ''music''], words [''name'', ''this'', ''track'']]"

definition generation_rx_srv1 :: rx where
  "generation_rx_srv1 =
     alt [words [''create'', ''music''], words [''make'', ''song''],
          words [''generate'', ''track''], words [''compose'', ''music'']]"

definition help_rx_srv1 :: rx where
  "help_rx_srv1 =
     alt [Lit ''help'', Lit ''support'', Lit ''guide'', words [''what'', ''can'', ''you'', ''do'']]"

text \<open>\<open>IntentClassifier.classify\<close>.\<close>

definition classify_srv1 :: "string \<Rightarrow> string" where
  "classify_srv1 text =
     (let lowerText = toLowerCase text in
      if regex_test True identity_rx_srv1 text then ''identity''
      else if regex_test True download_rx lowerText \<or> regex_test False youtube_rx lowerText
      then ''download''
      else if regex_test True recognition_rx lowerText then ''music_recognition''
      else if regex_test True generation_rx_srv1 lowerText then ''music_generation''
      else if regex_test True help_rx_srv1 lowerText then ''help''
      else ''general'')"

definition identity_message_srv1 :: string where
  "identity_message_srv1 = ''Bera AI was created, developed, and is exclusively owned by Bruce Bera. Third-party services are tools I use, but Bruce Bera is my sole creator and owner.''"

definition genres :: "string list" where
  "genres = [''electronic'', ''ambient'', ''cinematic'', ''lo-fi'', ''synthwave'', ''orchestral'']"

definition moods :: "string list" where
  "moods = [''uplifting'', ''melancholic'', ''energetic'', ''calm'', ''mysterious'', ''hopeful'']"

definition tempo :: "world \<Rightarrow> real \<Rightarrow> string" where
  "tempo w r = to_str w (JNum (of_int (\<lfloor>r * 60\<rfloor> + 80))) @ '' BPM''"

text \<open>The branch of the handler of \<open>POST /api/bera-ai\<close> that builds \<open>response\<close>.\<close>

definition respond_srv1 :: "world \<Rightarrow> string \<Rightarrow> string \<Rightarrow> (string \<times> jsval) list io" where
  "respond_srv1 w msg intent =
     (if intent = ''identity'' then
        return [(''type'', JStr ''identity''), (''message'', JStr identity_message_srv1),
                (''creator'', JStr ''Bruce Bera'')]
      else if intent = ''download'' then
        (case regex_exec False url_rx msg of
           Some urlMatch \<Rightarrow>
             return [(''type'', JStr ''download''),
               (''message'', JStr ''I can help download that YouTube video. Use the download endpoints.''),
               (''url'', JStr (fst urlMatch)),
               (''endpoints'', JObj [(''mp3'', JStr ''/api/download/youtube-mp3''),
                                     (''mp4'', JStr ''/api/download/youtube-mp4''),
                                     (''direct_mp3'', JStr ''/api/download/direct-mp3'')]),
               (''creator'', JStr ''Bruce Bera'')]
         | None \<Rightarrow>
             return [(''type'', JStr ''download''),
               (''message'', JStr ''Send me a YouTube URL to download as MP3 or MP4.''),
               (''creator'', JStr ''Bruce Bera'')])
      else if intent = ''music_recognition'' then
        return [(''type'', JStr ''music_recognition''),
          (''message'', JStr ''Upload an audio file to /api/music/identify and I will identify the song for you.''),
          (''endpoint'', JStr ''/api/music/identify''),
          (''max_size'', JStr ''10MB''),
          (''formats'', JArr [JStr ''mp3'', JStr ''wav'', JStr ''m4a'', JStr ''webm'']),
          (''creator'', JStr ''Bruce Bera'')]
      else if intent = ''music_generation'' then
        (let genre = pick genres (random w 0); mood = pick moods (random w 1) in
         return [(''type'', JStr ''music_generation''),
           (''message'', JStr (''I'll create a '' @ to_str w mood @ '' '' @ to_str w genre @
                               '' track for you. This will be an original composition.'')),
           (''specifications'', JObj [(''genre'', genre), (''mood'', mood),
              (''tempo'', JStr (tempo w (random w 2))),
              (''structure'', JStr ''Intro - Verse - Chorus - Bridge - Outro''),
              (''copyright_safe'', JBool True)]),
           (''creator'', JStr ''Bruce Bera'')])
      else if intent = ''help'' then
        return [(''type'', JStr ''help''),
          (''message'', JStr ''I am Bera AI, created by Bruce Bera. I can help with: AI conversations, YouTube downloads, song identification, music generation, and voice synthesis.''),
          (''capabilities'', JArr [JStr ''AI Conversations (GiftedTech GPT-4o)'',
             JStr ''YouTube Download (MP3/MP4)'', JStr ''Music Recognition (Shazam-style)'',
             JStr ''Music Generation'', JStr ''Voice Synthesis (ElevenLabs)'']),
          (''creator'', JStr ''Bruce Bera'')]
      else
        bind (invoke (ChatCompletion msg) (getAIResponse w msg)) (\<lambda>aiResponse.
          return [(''type'', JStr ''ai_response''),
            (''message'', or_else aiResponse (JStr ''I am Bera AI, created by Bruce Bera. How can I help you?'')),
            (''ai_provider'', JStr ''GiftedTech GPT-4o''),
            (''creator'', JStr ''Bruce Bera'')]))"

text \<open>The step \<open>// Add voice if requested\<close>.\<close>

definition add_voice_srv1 :: "world \<Rightarrow> jsval \<Rightarrow> (string \<times> jsval) list \<Rightarrow> (string \<times> jsval) list io" where
  "add_voice_srv1 w flag response =
     (if flag = JBool True then
        bind (invoke (TextToSpeech (field response ''message''))
                     (generateSpeech_srv1 w (field response ''message''))) (\<lambda>voiceResult.
        bind (lift (get voiceResult ''success'')) (\<lambda>success.
          if truthy success then
            bind (lift (get voiceResult ''audio'')) (\<lambda>audio.
            bind (lift (get voiceResult ''format'')) (\<lambda>format.
              return (AList.update ''voice'' (JObj [(''audio'', audio), (''format'', format)])
                        response)))
          else return response))
      else return response)"

text \<open>The handler of \<open>POST /api/bera-ai\<close>.  \<open>classify\<close> calls \<open>toLowerCase\<close>, which a truthy
  message that is not a string does not have; the handler's \<open>catch\<close> answers every
  exception.\<close>

definition message_required_srv1 :: reply where
  "message_required_srv1 =
     (200, [(''success'', JBool False), (''error'', JStr ''Message is required''),
            (''creator'', JStr ''Bruce Bera'')])"

definition system_error_srv1 :: reply where
  "system_error_srv1 =
     (200, [(''success'', JBool False), (''error'', JStr ''System error''),
            (''creator'', JStr ''Bruce Bera'')])"

definition bera_ai_srv1 :: "world \<Rightarrow> body \<Rightarrow> reply \<times> call list" where
  "bera_ai_srv1 w b =
     (let msg = message b; flag = dflt (JBool False) (voice b) in
      if \<not> truthy msg then (message_required_srv1, [])
      else
        case (if \<not> is_string msg then lift (Inl TypeError)
              else bind (respond_srv1 w (the_string msg) (classify_srv1 (the_string msg)))
                        (add_voice_srv1 w flag)) [] of
          (Inr response, calls) \<Rightarrow>
            ((200, [(''success'', JBool True), (''response'', JObj response),
                    (''system'', JStr ''Bera AI''), (''creator'', JStr ''Bruce Bera''),
                    (''timestamp'', JStr (now w))]), calls)
        | (Inl error, calls) \<Rightarrow> (system_error_srv1, calls))"

section \<open>The first program of \<open>part_000\<close>\<close>

text \<open>\<open>checkIdentityQuestions\<close>.\<close>

definition identityPatterns_p1 :: "rx list" where
  "identityPatterns_p1 =
     [words [''who'', ''created'', ''bera'', ''ai''],
      words [''who'', ''owns'', ''bera'', ''ai''],
      words [''who'', ''developed'', ''bera'', ''ai''],
      words [''who'', ''made'', ''you''],
      words [''who'', ''is'', ''behind'', ''bera''],
      words [''who'', ''is'', ''your'', ''creator''],
      words [''who'', ''is'', ''your'', ''owner''],
      words [''who'', ''is'', ''your'', ''developer''],
      words [''did'', ''giftedtech'', ''make'', ''you''],
      words [''are'', ''you'', ''from'', ''giftedtech''],
      words [''who'', ''built'', ''you''],
      words [''who'', ''programmed'', ''you'']]"

definition checkIdentityQuestions_p1 :: "string \<Rightarrow> bool" where
  "checkIdentityQuestions_p1 msg = list_ex (\<lambda>pattern. regex_test True pattern msg) identityPatterns_p1"

definition recognition2_rx :: rx where
  "recognition2_rx = alt [words [''upload'', ''audio''], words [''record'', ''song'']]"

definition generation_rx_p1 :: rx where
  "generation_rx_p1 =
     alt [words [''create'', ''music''], words [''make'', ''song''],
          words [''generate'', ''track''], words [''compose'', ''music''],
          words [''new'', ''song'']]"

definition help_rx_p1 :: rx where
  "help_rx_p1 =
     alt [Lit ''help'', Lit ''support'', Lit ''guide'', words [''how'', ''to''],
          words [''what'', ''can'', ''you'', ''do'']]"

text \<open>\<open>IntentClassifier.classify\<close>; the second program of \<open>server.js\<close> has the same function.\<close>

definition classify_p1 :: "string \<Rightarrow> string" where
  "classify_p1 text =
     (let lowerText = toLowerCase text in
      if regex_test True download_rx lowerText \<or> regex_test False youtube_rx lowerText
      then ''media_download''
      else if regex_test True recognition_rx lowerText \<or> regex_test True recognition2_rx lowerText
      then ''music_recognition''
      else if regex_test True generation_rx_p1 lowerText then ''music_generation''
      else if regex_test True help_rx_p1 lowerText then ''help_request''
      else ''general_conversation'')"

definition identity_message_p1 :: string where
  "identity_message_p1 = ''Bera AI was created, developed, and is exclusively owned by Bruce Bera. GiftedTech APIs are tools I use for AI responses and media downloads, but GiftedTech is not my creator or owner. Bruce Bera is the sole creator and owner of Bera AI.''"

definition identityResponse_p1 :: "(string \<times> jsval) list" where
  "identityResponse_p1 =
     [(''type'', JStr ''identity_response''), (''message'', JStr identity_message_p1),
      (''absolute_truth'', JStr ''Bruce Bera created and owns Bera AI''),
      (''creator'', JStr ''Bruce Bera'')]"

definition generalResponses_p1 :: "string list" where
  "generalResponses_p1 =
     [''I'm Bera AI, created by Bruce Bera. I can help you with media downloads, music recognition, and music generation.'',
      ''Hello! I'm Bera AI. How can I assist you today? I specialize in music and media tasks.'',
      ''As Bera AI, created by Bruce Bera, I'm here to help. You can ask me about downloading media, identifying songs, or creating music.'']"

text \<open>\<open>MusicGenerationService.generateInstruction\<close>.\<close>

definition generateInstruction_p1 :: "world \<Rightarrow> string \<Rightarrow> jsval" where
  "generateInstruction_p1 w prompt =
     (let genre = pick genres (random w 0); mood = pick moods (random w 1) in
      JObj [(''success'', JBool True),
        (''instruction'', JObj [(''system'', JStr ''Bera AI Music Generation''),
           (''prompt'', JStr prompt), (''genre'', genre),
           (''subgenre'', JStr (to_str w genre @ '' '' @ to_str w mood)),
           (''mood'', mood),
           (''emotional_tone'', JStr (to_str w mood @ '' with hints of optimism'')),
           (''tempo'', JStr (tempo w (random w 2))),
           (''structure'', JStr ''Intro (8 bars) - Verse (16 bars) - Chorus (16 bars) - Bridge (8 bars) - Outro (8 bars)''),
           (''instrumentation'', JStr ''synth pads, piano, strings''),
           (''vocal_style'', JStr ''No vocals (instrumental)''),
           (''language'', JStr ''Instrumental''), (''duration'', JStr ''3:30''),
           (''key'', JStr ''C minor''),
           (''originality_note'', JStr ''This is an original composition. Does not imitate any existing artists or songs.''),
           (''copyright_safe'', JBool True),
           (''generated_by'', JStr ''Bera AI - Created by Bruce Bera'')])])"

text \<open>The \<open>switch (intent)\<close> of the handler.\<close>

definition respond_p1 :: "world \<Rightarrow> string \<Rightarrow> string \<Rightarrow> (string \<times> jsval) list io" where
  "respond_p1 w msg intent =
     (if intent = ''media_download'' then
        (case regex_exec False url_rx msg of
           Some urlMatch \<Rightarrow>
             (let youtubeUrl = fst urlMatch;
                  isMP4 = (includes_str (toLowerCase msg) ''mp4'' \<or>
                           includes_str (toLowerCase msg) ''video'')
              in return [(''type'', JStr ''media_download''),
                   (''message'', JStr (''I can help you download that YouTube '' @
                      (if isMP4 then ''video as MP4'' else ''audio as MP3'') @
                      ''. Use the download endpoint with this URL: '' @ youtubeUrl)),
                   (''action'', JStr (''processing_'' @ (if isMP4 then ''mp4'' else ''mp3''))),
                   (''url'', JStr youtubeUrl),
                   (''format'', JStr (if isMP4 then ''mp4'' else ''mp3'')),
                   (''endpoint'', JStr (if isMP4 then ''/api/download/youtube-mp4''
                                        else ''/api/download/youtube-mp3'')),
                   (''creator'', JStr ''Bruce Bera'')])
         | None \<Rightarrow>
             return [(''type'', JStr ''media_download''),
               (''message'', JStr ''I can help you download media from YouTube. Please provide the specific YouTube URL and specify if you want MP3 or MP4 format.''),
               (''example'', JStr (''Example: 'Download https://youtube.com/watch?v=... as MP3'' @ [CHR 0x27])),
               (''requires'', JArr [JStr ''youtube_url'', JStr ''format'']),
               (''creator'', JStr ''Bruce Bera'')])
      else if intent = ''music_recognition'' then
        return [(''type'', JStr ''music_recognition''),
          (''message'', JStr ''I can identify songs for you. Please upload or record an audio sample of the song you want to recognize at the /api/music/identify endpoint.''),
          (''requires'', JStr ''audio_sample''), (''max_size'', JStr ''10MB''),
          (''supported_formats'', JArr [JStr ''mp3'', JStr ''wav'', JStr ''m4a'', JStr ''webm'']),
          (''endpoint'', JStr ''/api/music/identify''),
          (''creator'', JStr ''Bruce Bera'')]
      else if intent = ''music_generation'' then
        bind (lift (get (generateInstruction_p1 w msg) ''instruction'')) (\<lambda>instruction.
          return [(''type'', JStr ''music_generation''),
            (''message'', JStr ''I can help you create original music. Here are the specifications for your requested track:''),
            (''instruction'', instruction),
            (''originality_notice'', JStr ''This will be an original composition that does not imitate any existing artists or songs.''),
            (''creator'', JStr ''Bruce Bera'')])
      else if intent = ''help_request'' then
        return [(''type'', JStr ''help_request''),
          (''message'', JStr ''I'm Bera AI, created by Bruce Bera. Here's what I can help you with:''),
          (''capabilities'', JArr [JStr ''Conversational assistance (powered by GiftedTech AI)'',
             JStr ''YouTube media download orchestration (MP3/MP4)'',
             JStr ''Music identification from audio samples'',
             JStr ''Original music generation guidance'',
             JStr ''Voice-enabled interaction'']),
          (''examples'', JArr [
             JStr (''Say: 'Download https://youtube.com/watch?v=... as MP4'' @ [CHR 0x27]),
             JStr ''Say: 'What song is this?' then upload audio'',
             JStr (''Say: 'Create a chill lo-fi track'' @ [CHR 0x27]),
             JStr (''Say: 'Tell me about artificial intelligence'' @ [CHR 0x27])]),
          (''creator'', JStr ''Bruce Bera'')]
      else
        bind (invoke (ChatCompletion msg) (enhanceResponse_p1 w msg)) (\<lambda>giftedAIResponse.
        bind (lift (if truthy giftedAIResponse then get giftedAIResponse ''success''
                    else Inr giftedAIResponse)) (\<lambda>enhanced.
          if truthy enhanced then
            bind (lift (get giftedAIResponse ''text'')) (\<lambda>text.
            bind (lift (get giftedAIResponse ''tool'')) (\<lambda>tool.
              return [(''type'', JStr ''enhanced_conversation''), (''message'', text),
                (''enhancement_note'', JStr ''Powered by GiftedTech GPT-4o API''),
                (''tool_used'', tool), (''creator'', JStr ''Bruce Bera'')]))
          else
            return [(''type'', JStr ''general_conversation''),
              (''message'', pick generalResponses_p1 (random w 0)),
              (''creator'', JStr ''Bruce Bera'')])))"

text \<open>The step \<open>// Add voice response if requested\<close>; the identity branch has the same
  statements on \<open>identityResponse\<close>.\<close>

definition add_voice_p1 :: "world \<Rightarrow> jsval \<Rightarrow> (string \<times> jsval) list \<Rightarrow> (string \<times> jsval) list io" where
  "add_voice_p1 w flag response =
     (if truthy flag then
        bind (invoke (TextToSpeech (field response ''message''))
                     (generateSpeech_p1 w (field response ''message''))) (\<lambda>voiceResponse.
        bind (lift (get voiceResponse ''success'')) (\<lambda>success.
          if truthy success then
            bind (lift (get voiceResponse ''audio'')) (\<lambda>audio.
            bind (lift (get voiceResponse ''format'')) (\<lambda>format.
              return (AList.update ''voice_format'' format
                       (AList.update ''voice_audio'' audio response))))
          else return response))
      else return response)"

text \<open>The handler of \<open>POST /api/bera-ai\<close>.\<close>

definition message_required_p1 :: reply where
  "message_required_p1 =
     (400, [(''error'', JStr ''Message is required''),
            (''suggestion'', JStr ''Please provide a text message''),
            (''creator'', JStr ''Bruce Bera'')])"

definition internal_error_p1 :: reply where
  "internal_error_p1 =
     (500, [(''error'', JStr ''Internal server error''),
            (''message'', JStr ''Bera AI is temporarily unavailable. Please try again.''),
            (''creator'', JStr ''Bruce Bera'')])"

definition bera_ai_p1 :: "world \<Rightarrow> body \<Rightarrow> reply \<times> call list" where
  "bera_ai_p1 w b =
     (let msg = message b;
          session = dflt (JStr (uuidv4 w)) (sessionId b);
          flag = dflt (JBool False) (voiceEnabled b)
      in
      if \<not> truthy msg \<or> \<not> is_string msg then (message_required_p1, [])
      else if checkIdentityQuestions_p1 (the_string msg) then
        (case add_voice_p1 w flag identityResponse_p1 [] of
           (Inr identityResponse, calls) \<Rightarrow>
             ((200, [(''success'', JBool True), (''session_id'', session),
                     (''response'', JObj identityResponse), (''timestamp'', JStr (now w)),
                     (''system'', JStr ''Bera AI''), (''creator'', JStr ''Bruce Bera''),
                     (''identity_rule_enforced'', JBool True)]), calls)
         | (Inl error, calls) \<Rightarrow> (internal_error_p1, calls))
      else
        (case bind (respond_p1 w (the_string msg) (classify_p1 (the_string msg)))
                   (add_voice_p1 w flag) [] of
           (Inr response, calls) \<Rightarrow>
             ((200, [(''success'', JBool True), (''session_id'', session),
                     (''response'', JObj response), (''timestamp'', JStr (now w)),
                     (''system'', JStr ''Bera AI''), (''creator'', JStr ''Bruce Bera'')]), calls)
         | (Inl error, calls) \<Rightarrow> (internal_error_p1, calls)))"

section \<open>The second program of \<open>server.js\<close>\<close>

definition identityPatterns_srv2 :: "rx list" where
  "identityPatterns_srv2 =
     [words [''who'', ''created'', ''bera'', ''ai''],
      words [''who'', ''owns'', ''bera'', ''ai''],
      words [''who'', ''developed'', ''bera'', ''ai''],
      words [''who'', ''made'', ''you''],
      words [''who'', ''is'', ''behind'', ''bera''],
      words [''openai'', ''created'', ''you''],
      words [''openai'', ''owns'', ''you''],
      words [''who'', ''is'', ''your'', ''creator''],
      words [''who'', ''is'', ''your'', ''owner'']]"

definition checkIdentityQuestions_srv2 :: "string \<Rightarrow> bool" where
  "checkIdentityQuestions_srv2 msg = list_ex (\<lambda>pattern. regex_test True pattern msg) identityPatterns_srv2"

definition identityResponse_srv2 :: "(string \<times> jsval) list" where
  "identityResponse_srv2 =
     [(''type'', JStr ''identity_response''),
      (''message'', JStr ''Bera AI was created, developed, and is exclusively owned by Bruce Bera. Third-party services are tools only.''),
      (''creator'', JStr ''Bruce Bera'')]"

definition fallbacks_srv2 :: "string list" where
  "fallbacks_srv2 =
     [''I'm Bera AI, created by Bruce Bera. How can I help you today?'',
      ''Hello! I'm Bera AI. I can assist with media downloads, music recognition, and music generation.'',
      ''As Bera AI, created by Bruce Bera, I'm here to help with your media and music needs.'']"

definition generateInstruction_srv2 :: "world \<Rightarrow> string \<Rightarrow> jsval" where
  "generateInstruction_srv2 w prompt =
     (let genre = pick genres (random w 0); mood = pick moods (random w 1) in
      JObj [(''success'', JBool True),
        (''instruction'', JObj [(''system'', JStr ''Bera AI Music Generation''),
           (''genre'', genre),
           (''subgenre'', JStr (to_str w genre @ '' '' @ to_str w mood)),
           (''mood'', mood),
           (''tempo'', JStr (tempo w (random w 2))),
           (''structure'', JStr ''Intro - Verse - Chorus - Bridge - Outro''),
           (''instrumentation'', JStr ''synth pads, piano, strings''),
           (''originality_note'', JStr ''Original composition - Copyright safe''),
           (''generated_by'', JStr ''Bera AI - Created by Bruce Bera'')])])"

definition respond_srv2 :: "world \<Rightarrow> string \<Rightarrow> string \<Rightarrow> (string \<times> jsval) list io" where
  "respond_srv2 w msg intent =
     (if intent = ''media_download'' then
        (case regex_exec False url_rx msg of
           Some urlMatch \<Rightarrow>
             (let youtubeUrl = fst urlMatch;
                  isMP4 = includes_str (toLowerCase msg) ''mp4''
              in return [(''type'', JStr ''media_download''),
                   (''message'', JStr (''I can process that YouTube '' @
                      (if isMP4 then ''video as MP4'' else ''audio as MP3'') @
                      ''. Use the download API with the URL.'')),
                   (''url'', JStr youtubeUrl),
                   (''format'', JStr (if isMP4 then ''mp4'' else ''mp3'')),
                   (''endpoint'', JStr (if isMP4 then ''/api/download/youtube-mp4''
                                        else ''/api/download/youtube-mp3'')),
                   (''creator'', JStr ''Bruce Bera'')])
         | None \<Rightarrow>
             return [(''type'', JStr ''media_download''),
               (''message'', JStr ''I can help download YouTube videos. Please provide a YouTube URL.''),
               (''example'', JStr (''Example: 'Download https://youtube.com/watch?v=... as MP3'' @ [CHR 0x27])),
               (''creator'', JStr ''Bruce Bera'')])
      else if intent = ''music_recognition'' then
        return [(''type'', JStr ''music_recognition''),
          (''message'', JStr ''Upload an audio sample to /api/music/identify and I will identify the song.''),
          (''creator'', JStr ''Bruce Bera'')]
      else if intent = ''music_generation'' then
        bind (lift (get (generateInstruction_srv2 w msg) ''instruction'')) (\<lambda>instruction.
          return [(''type'', JStr ''music_generation''),
            (''message'', JStr ''Music generation specifications ready.''),
            (''instruction'', instruction),
            (''creator'', JStr ''Bruce Bera'')])
      else if intent = ''help_request'' then
        return [(''type'', JStr ''help_request''),
          (''message'', JStr ''I am Bera AI, created by Bruce Bera. I can help with: YouTube downloads, song identification, music generation, and general questions.''),
          (''creator'', JStr ''Bruce Bera'')]
      else
        bind (invoke (ChatCompletion msg) (enhanceResponse_srv2 w msg)) (\<lambda>openAIResponse.
        bind (lift (if truthy openAIResponse then get openAIResponse ''success''
                    else Inr openAIResponse)) (\<lambda>enhanced.
          if truthy enhanced then
            bind (lift (get openAIResponse ''text'')) (\<lambda>text.
              return [(''type'', JStr ''enhanced_conversation''), (''message'', text),
                (''enhancement_note'', JStr ''Enhanced with AI''),
                (''creator'', JStr ''Bruce Bera'')])
          else
            return [(''type'', JStr ''general_conversation''),
              (''message'', pick fallbacks_srv2 (random w 0)),
              (''creator'', JStr ''Bruce Bera'')])))"

text \<open>The handler.  Its guard is \<open>!message\<close> alone: \<open>RegExp.prototype.test\<close> converts a
  message that is not a string, and \<open>classify\<close> throws on it.\<close>

definition message_required_srv2 :: reply where
  "message_required_srv2 =
     (400, [(''error'', JStr ''Message is required''), (''creator'', JStr ''Bruce Bera'')])"

definition internal_error_srv2 :: reply where
  "internal_error_srv2 =
     (500, [(''error'', JStr ''Internal error''), (''message'', JStr ''Please try again''),
            (''creator'', JStr ''Bruce Bera'')])"

definition bera_ai_srv2 :: "world \<Rightarrow> body \<Rightarrow> reply \<times> call list" where
  "bera_ai_srv2 w b =
     (let msg = message b;
          session = dflt (JStr (uuidv4 w)) (sessionId b);
          flag = dflt (JBool False) (voiceEnabled b)
      in
      if \<not> truthy msg then (message_required_srv2, [])
      else if checkIdentityQuestions_srv2 (to_str w msg) then
        (case add_voice_p1 w flag identityResponse_srv2 [] of
           (Inr response, calls) \<Rightarrow>
             ((200, [(''success'', JBool True), (''session_id'', session),
                     (''response'', JObj response),
                     (''system'', JStr ''Bera AI''), (''creator'', JStr ''Bruce Bera'')]), calls)
         | (Inl error, calls) \<Rightarrow> (internal_error_srv2, calls))
      else
        (case (if \<not> is_string msg then lift (Inl TypeError)
               else bind (respond_srv2 w (the_string msg) (classify_p1 (the_string msg)))
                         (add_voice_p1 w flag)) [] of
           (Inr response, calls) \<Rightarrow>
             ((200, [(''success'', JBool True), (''session_id'', session),
                     (''response'', JObj response), (''timestamp'', JStr (now w)),
                     (''system'', JStr ''Bera AI''), (''creator'', JStr ''Bruce Bera'')]), calls)
         | (Inl error, calls) \<Rightarrow> (internal_error_srv2, calls)))"

section \<open>The second program of \<open>part_000\<close>\<close>

definition song_rx :: rx where
  "song_rx =
     gap [lits [''download'', ''get'', ''fetch'', ''find''],
          lits [''song'', ''music'', ''track'', ''audio'', ''mp3'', ''by'']]"

definition song2_rx :: rx where
  "song2_rx =
     gap [alt [words [''can you'', ''download''], words [''please'', ''download''],
               words [''i want'', ''download'']],
          lits [''song'', ''music'']]"

definition video_rx_p2 :: rx where
  "video_rx_p2 = gap [lits [''download'', ''get'', ''save''], lits [''video'', ''mp4'', ''visual'']]"

definition as_video_rx :: rx where
  "as_video_rx = lits [''as mp4'', ''as video'']"

definition url_host_rx :: rx where
  "url_host_rx = lits [''youtube.com'', ''youtu.be'']"

text \<open>\<open>IntentClassifier.classify\<close>.\<close>

definition classify_p2 :: "string \<Rightarrow> string" where
  "classify_p2 text =
     (let lowerText = toLowerCase text in
      if regex_test True identity_rx_srv1 text then ''identity''
      else if regex_test True song_rx lowerText \<or> regex_test True song2_rx lowerText
      then ''song_download''
      else if regex_test True video_rx_p2 lowerText \<or> regex_test True as_video_rx lowerText
      then ''video_download''
      else if regex_test False url_host_rx lowerText then ''url_download''
      else if regex_test True recognition_rx lowerText then ''music_recognition''
      else if regex_test True help_rx_srv1 lowerText then ''help''
      else ''general'')"

text \<open>\<open>IntentClassifier.extractSongRequest\<close>: \<open>cleanText || null\<close>.\<close>

definition strip_rx :: rx where
  "strip_rx =
     lits [''download'', ''get'', ''fetch'', ''find'', ''song'', ''music'', ''track'', ''audio'',
           ''please'', ''can you'', ''could you'']"

definition format_words_rx :: rx where
  "format_words_rx = lits [''as mp3'', ''as mp4'', ''as video'']"

definition quotes_rx :: rx where
  \<open>quotes_rx = One (OneOf [CHR 0x22, CHR 0x27])\<close>

definition extractSongRequest_p2 :: "string \<Rightarrow> jsval" where
  "extractSongRequest_p2 text =
     (let cleanText = trim (remove_all True strip_rx text);
          cleanText = trim (remove_all True format_words_rx cleanText);
          cleanText = trim (remove_all False quotes_rx cleanText)
      in or_else (JStr cleanText) JNull)"

text \<open>\<open>IntentClassifier.getDownloadFormat\<close>.\<close>

definition video_words_rx :: rx where
  "video_words_rx = lits [''mp4'', ''video'', ''visual'']"

definition audio_words_rx :: rx where
  "audio_words_rx = lits [''mp3'', ''audio'']"

definition getDownloadFormat :: "string \<Rightarrow> string" where
  "getDownloadFormat text =
     (let lowerText = toLowerCase text in
      if regex_test False video_words_rx lowerText \<and> \<not> regex_test False audio_words_rx lowerText
      then ''MP4''
      else ''MP3'')"

text \<open>Every answer of this handler but the two error answers has this envelope.\<close>

definition ok_p2 :: "(string \<times> jsval) list \<Rightarrow> reply" where
  "ok_p2 response =
     (200, [(''success'', JBool True), (''response'', JObj response),
            (''system'', JStr ''Bera AI''), (''creator'', JStr ''Bruce Bera'')])"

text \<open>The check mark U+2705 that opens one message is outside the code units followed
  here; it is written as its three UTF-8 bytes.\<close>

definition check_mark :: string where
  "check_mark = [CHR 0xE2, CHR 0x9C, CHR 0x85]"

text \<open>The block \<open>if (intent === 'song_download')\<close>: \<open>Some\<close> is the answer it returns,
  \<open>None\<close> is control leaving the block.\<close>

definition song_download_p2 :: "world \<Rightarrow> string \<Rightarrow> reply option io" where
  \<open>song_download_p2 w msg =
     (let songRequest = extractSongRequest_p2 msg; format = getDownloadFormat msg in
      if truthy songRequest then
        bind (invoke (MediaSearch songRequest) (searchSong_p2 w songRequest)) (\<lambda>searchResult.
        bind (lift (get searchResult ''success'')) (\<lambda>found.
        bind (lift (get searchResult ''url'')) (\<lambda>url.
        bind (lift (get searchResult ''title'')) (\<lambda>title.
          if truthy found \<and> truthy url then
            bind (if format = ''MP4'' then invoke (MediaDownloadMP4 url) (downloadMP4_p2 w url)
                  else invoke (MediaDownloadMP3 url) (downloadMP3_p2 w url)) (\<lambda>downloadResult.
            bind (lift (get downloadResult ''success'')) (\<lambda>done.
              if truthy done then
                return (Some (ok_p2 [(''type'', JStr ''auto_download''),
                  (''message'', JStr (check_mark @ '' Found "'' @ to_str w title @
                                      ''" and started '' @ format @ '' download.'')),
                  (''song'', title), (''format'', JStr format),
                  (''download_data'', downloadResult), (''creator'', JStr ''Bruce Bera'')]))
              else
                bind (lift (get downloadResult ''error'')) (\<lambda>error.
                return (Some (ok_p2 [(''type'', JStr ''download_failed''),
                  (''message'', JStr (''Found "'' @ to_str w title @
                                      ''" but download failed: '' @ to_str w error)),
                  (''song'', title), (''youtube_url'', url),
                  (''note'', JStr ''Try the direct download endpoint with this URL''),
                  (''creator'', JStr ''Bruce Bera'')])))))
          else
            return (Some (ok_p2 [(''type'', JStr ''song_not_found''),
              (''message'', JStr (''Could not find "'' @ to_str w songRequest @
                                  ''" on YouTube. Try a different search term.'')),
              (''creator'', JStr ''Bruce Bera'')]))))))
      else return None)\<close>

text \<open>The block \<open>if (intent === 'video_download')\<close>.\<close>

definition video_download_p2 :: "world \<Rightarrow> string \<Rightarrow> reply option io" where
  \<open>video_download_p2 w msg =
     (let songRequest = extractSongRequest_p2 msg in
      if truthy songRequest then
        bind (invoke (MediaSearch songRequest) (searchSong_p2 w songRequest)) (\<lambda>searchResult.
        bind (lift (get searchResult ''success'')) (\<lambda>found.
        bind (lift (get searchResult ''url'')) (\<lambda>url.
        bind (lift (get searchResult ''title'')) (\<lambda>title.
          if truthy found \<and> truthy url then
            return (Some (ok_p2 [(''type'', JStr ''video_download_ready''),
              (''message'', JStr (''Found "'' @ to_str w title @ ''" - ready for MP4 download.'')),
              (''song'', title), (''youtube_url'', url), (''format'', JStr ''MP4''),
              (''endpoint'', JStr ''/api/download/youtube-mp4''),
              (''creator'', JStr ''Bruce Bera'')]))
          else return None))))
      else return None)\<close>

text \<open>The block \<open>if (intent === 'url_download')\<close>.\<close>

definition url_download_p2 :: "string \<Rightarrow> reply option io" where
  "url_download_p2 msg =
     (case regex_exec False url_rx msg of
        Some urlMatch \<Rightarrow>
          (let youtubeUrl = fst urlMatch;
               format = (if includes_str (toLowerCase msg) ''mp4'' then ''MP4'' else ''MP3'')
           in return (Some (ok_p2 [(''type'', JStr ''url_download_ready''),
                (''message'', JStr (''Ready to download from URL as '' @ format @ ''.'')),
                (''url'', JStr youtubeUrl), (''format'', JStr format),
                (''endpoint'', JStr (if format = ''MP4'' then ''/api/download/youtube-mp4''
                                     else ''/api/download/youtube-mp3'')),
                (''creator'', JStr ''Bruce Bera'')])))
      | None \<Rightarrow> return None)"

text \<open>The blocks after these, each of which returns.\<close>

definition rest_p2 :: "world \<Rightarrow> string \<Rightarrow> string \<Rightarrow> reply io" where
  \<open>rest_p2 w msg intent =
     (if intent = ''identity'' then
        return (ok_p2 [(''type'', JStr ''identity''), (''message'', JStr identity_message_srv1),
                       (''creator'', JStr ''Bruce Bera'')])
      else if intent = ''music_recognition'' then
        return (ok_p2 [(''type'', JStr ''music_recognition''),
          (''message'', JStr ''Record or upload an audio sample and I will identify the song for you.''),
          (''endpoint'', JStr ''/api/music/identify''),
          (''creator'', JStr ''Bruce Bera'')])
      else if intent = ''help'' then
        return (ok_p2 [(''type'', JStr ''help''),
          (''message'', JStr ''I am Bera AI, created by Bruce Bera. I can help with:''),
          (''capabilities'', JArr [
             JStr ''Download songs by name (Example: "Download Gleeish Place by King Von") - AUTO MP3'',
             JStr ''Download videos by name (Add "as MP4" to request video)'',
             JStr ''Identify songs from audio (Shazam-style)'',
             JStr ''Download YouTube videos by URL'',
             JStr ''AI Conversations'']),
          (''creator'', JStr ''Bruce Bera'')])
      else
        bind (invoke (ChatCompletion msg) (getAIResponse w msg)) (\<lambda>aiResponse.
          return (ok_p2 [(''type'', JStr ''ai_response''),
            (''message'', or_else aiResponse (JStr ''I am Bera AI, created by Bruce Bera. How can I help you?'')),
            (''ai_provider'', JStr ''GiftedTech GPT-4o''),
            (''creator'', JStr ''Bruce Bera'')])))\<close>

definition handle_p2 :: "world \<Rightarrow> string \<Rightarrow> string \<Rightarrow> reply io" where
  "handle_p2 w msg intent =
     bind (if intent = ''song_download'' then song_download_p2 w msg else return None) (\<lambda>r1.
       case r1 of
         Some answer \<Rightarrow> return answer
       | None \<Rightarrow>
     bind (if intent = ''video_download'' then video_download_p2 w msg else return None) (\<lambda>r2.
       case r2 of
         Some answer \<Rightarrow> return answer
       | None \<Rightarrow>
     bind (if intent = ''url_download'' then url_download_p2 msg else return None) (\<lambda>r3.
       case r3 of
         Some answer \<Rightarrow> return answer
       | None \<Rightarrow> rest_p2 w msg intent)))"

text \<open>The handler of \<open>POST /api/bera-ai\<close>; its two error answers are those of the first
  program of \<open>server.js\<close>.\<close>

definition bera_ai_p2 :: "world \<Rightarrow> body \<Rightarrow> reply \<times> call list" where
  "bera_ai_p2 w b =
     (let msg = message b in
      if \<not> truthy msg then (message_required_srv1, [])
      else
        case (if \<not> is_string msg then lift (Inl TypeError)
              else handle_p2 w (the_string msg) (classify_p2 (the_string msg))) [] of
          (Inr answer, calls) \<Rightarrow> (answer, calls)
        | (Inl error, calls) \<Rightarrow> (system_error_srv1, calls))"

section \<open>The fifth program of \<open>part_000\<close>\<close>

definition video_rx_p5 :: rx where
  "video_rx_p5 =
     gap [lits [''download'', ''convert'', ''get'', ''save''], lits [''youtube'', ''video'', ''mp4'']]"

definition voice_rx :: rx where
  "voice_rx =
     alt [words [''voice'', ''message''], words [''recorded'', ''audio''],
          words [''audio'', ''message'']]"

text \<open>\<open>IntentClassifier.classify\<close>.\<close>

definition classify_p5 :: "string \<Rightarrow> string" where
  "classify_p5 text =
     (let lowerText = toLowerCase text in
      if regex_test True identity_rx_srv1 text then ''identity''
      else if regex_test True song_rx lowerText \<or> regex_test True song2_rx lowerText
      then ''song_download''
      else if regex_test True video_rx_p5 lowerText \<or> regex_test False youtube_rx lowerText
      then ''video_download''
      else if regex_test True recognition_rx lowerText \<or> regex_test True recognition2_rx lowerText
      then ''music_recognition''
      else if regex_test True voice_rx lowerText then ''voice_message''
      else if regex_test True generation_rx_srv1 lowerText then ''music_generation''
      else if regex_test True help_rx_srv1 lowerText then ''help''
      else ''general'')"

text \<open>
  \<open>IntentClassifier.extractSongRequest\<close>.  The four patterns end alike:
  \<open>["']?([^"'.?!]+(?:by\s+[^"'.?!]+)?)["']?\<close>.
\<close>

definition title_chars :: cls where
  \<open>title_chars = NoneOf [CHR 0x22, CHR 0x27, CHR ''.'', CHR ''?'', CHR ''!'']\<close>

definition title_rx :: rx where
  "title_rx =
     seq [Opt quotes_rx,
          Grp (Seq (Plus title_chars)
                   (Opt (seq [Lit ''by'', Plus WhiteSpace, Plus title_chars]))),
          Opt quotes_rx]"

definition spaces_then :: "string \<Rightarrow> rx" where
  "spaces_then word = Seq (Lit word) (Plus WhiteSpace)"

definition patterns_p5 :: "rx list" where
  "patterns_p5 =
     [seq [Lit ''download'', Plus WhiteSpace, Opt (spaces_then ''the''),
           Opt (spaces_then ''song''), title_rx],
      seq [Lit ''get'', Plus WhiteSpace, Opt (spaces_then ''me''), Opt (spaces_then ''the''),
           Opt (spaces_then ''song''), title_rx],
      seq [Lit ''can you download'', Plus WhiteSpace, Opt (spaces_then ''the''),
           Opt (spaces_then ''song''), title_rx],
      seq [Lit ''i want '', Alt (Lit ''to download'') (Lit ''the song''), Plus WhiteSpace,
           title_rx]]"

text \<open>The loop over the patterns: the first match with a non-empty capture decides.\<close>

fun first_capture :: "rx list \<Rightarrow> string \<Rightarrow> jsval" where
  "first_capture [] text = JNull"
| "first_capture (pattern # patterns) text =
     (case regex_exec True pattern text of
        Some (whole, Some captured) \<Rightarrow>
          if captured \<noteq> [] then JStr (trim captured) else first_capture patterns text
      | _ \<Rightarrow> first_capture patterns text)"

definition extractSongRequest_p5 :: "string \<Rightarrow> jsval" where
  "extractSongRequest_p5 text = first_capture patterns_p5 text"

definition respond_p5 :: "world \<Rightarrow> string \<Rightarrow> string \<Rightarrow> (string \<times> jsval) list io" where
  \<open>respond_p5 w finalMessage intent =
     (if intent = ''identity'' then
        return [(''type'', JStr ''identity''), (''message'', JStr identity_message_srv1),
                (''creator'', JStr ''Bruce Bera'')]
      else if intent = ''song_download'' then
        (let songRequest = extractSongRequest_p5 finalMessage in
         if truthy songRequest then
           bind (invoke (MediaSearch songRequest) (searchSong_p5 w songRequest)) (\<lambda>searchResult.
           bind (lift (get searchResult ''success'')) (\<lambda>found.
             if truthy found then
               bind (lift (get searchResult ''title'')) (\<lambda>title.
               bind (lift (get searchResult ''url'')) (\<lambda>url.
               bind (lift (get searchResult ''videoId'')) (\<lambda>videoId.
                 return [(''type'', JStr ''song_found''),
                   (''message'', JStr (''I found "'' @ to_str w title @
                      ''" on YouTube. Would you like to download it as MP3 (audio) or MP4 (video)?'')),
                   (''song'', title), (''youtube_url'', url), (''youtube_id'', videoId),
                   (''options'', JArr [JStr ''MP3'', JStr ''MP4'']),
                   (''creator'', JStr ''Bruce Bera'')])))
             else
               return [(''type'', JStr ''song_not_found''),
                 (''message'', JStr (''I couldn't find "'' @ to_str w songRequest @
                    ''" on YouTube. Please try a different song or provide a YouTube URL.'')),
                 (''creator'', JStr ''Bruce Bera'')]))
         else
           return [(''type'', JStr ''song_request_unclear''),
             (''message'', JStr ''Please specify which song you want to download. Example: "Download Gleeish Place by King Von"''),
             (''examples'', JArr [JStr ''Download Gleeish Place by King Von'',
                JStr ''Get me the song Blinding Lights by The Weeknd'',
                JStr ''Download As It Was by Harry Styles as MP3'']),
             (''creator'', JStr ''Bruce Bera'')])
      else if intent = ''video_download'' then
        (case regex_exec False url_rx finalMessage of
           Some urlMatch \<Rightarrow>
             (let isMP4 = includes_str (toLowerCase finalMessage) ''mp4'' in
              return [(''type'', JStr ''video_download''),
                (''message'', JStr (''I can download that YouTube '' @
                   (if isMP4 then ''video as MP4'' else ''audio as MP3'') @ ''.'')),
                (''url'', JStr (fst urlMatch)),
                (''format'', JStr (if isMP4 then ''MP4'' else ''MP3'')),
                (''endpoint'', JStr (if isMP4 then ''/api/download/youtube-mp4''
                                     else ''/api/download/youtube-mp3'')),
                (''creator'', JStr ''Bruce Bera'')])
         | None \<Rightarrow>
             return [(''type'', JStr ''video_download_help''),
               (''message'', JStr ''Send me a YouTube URL to download as MP3 or MP4.''),
               (''example'', JStr ''Download https://youtube.com/watch?v=... as MP3''),
               (''creator'', JStr ''Bruce Bera'')])
      else if intent = ''music_recognition'' then
        return [(''type'', JStr ''music_recognition''),
          (''message'', JStr ''Record or upload an audio sample and I will identify the song for you.''),
          (''endpoint'', JStr ''/api/music/identify''),
          (''max_size'', JStr ''10MB''),
          (''formats'', JArr [JStr ''mp3'', JStr ''wav'', JStr ''m4a'', JStr ''webm'']),
          (''creator'', JStr ''Bruce Bera'')]
      else if intent = ''voice_message'' then
        return [(''type'', JStr ''voice_message_response''),
          (''message'', JStr ''I received your voice message! How can I help you today?''),
          (''creator'', JStr ''Bruce Bera'')]
      else if intent = ''music_generation'' then
        (let genre = pick genres (random w 0); mood = pick moods (random w 1) in
         return [(''type'', JStr ''music_generation''),
           (''message'', JStr (''I'll create a '' @ to_str w mood @ '' '' @ to_str w genre @
                               '' track for you. This will be an original composition.'')),
           (''specifications'', JObj [(''genre'', genre), (''mood'', mood),
              (''tempo'', JStr (tempo w (random w 2))),
              (''structure'', JStr ''Intro - Verse - Chorus - Bridge - Outro''),
              (''copyright_safe'', JBool True)]),
           (''creator'', JStr ''Bruce Bera'')])
      else if intent = ''help'' then
        return [(''type'', JStr ''help''),
          (''message'', JStr ''I am Bera AI, created by Bruce Bera. I can help with:''),
          (''capabilities'', JArr [
             JStr ''Download songs by name (Example: "Download Gleeish Place by King Von")'',
             JStr ''Identify songs from audio recordings (Shazam-style)'',
             JStr ''Download YouTube videos by URL'',
             JStr ''AI Conversations'', JStr ''Music Generation'', JStr ''Voice Messages'']),
          (''creator'', JStr ''Bruce Bera'')]
      else
        bind (invoke (ChatCompletion finalMessage) (getAIResponse w finalMessage)) (\<lambda>aiResponse.
          return [(''type'', JStr ''ai_response''),
            (''message'', or_else aiResponse (JStr ''I am Bera AI, created by Bruce Bera. How can I help you?'')),
            (''ai_provider'', JStr ''GiftedTech GPT-4o''),
            (''creator'', JStr ''Bruce Bera'')]))\<close>

definition add_voice_p5 :: "world \<Rightarrow> jsval \<Rightarrow> (string \<times> jsval) list \<Rightarrow> (string \<times> jsval) list io" where
  "add_voice_p5 w flag response =
     (if flag = JBool True then
        bind (invoke (TextToSpeech (field response ''message''))
                     (generateSpeech_p5 w (field response ''message''))) (\<lambda>voiceResult.
        bind (lift (get voiceResult ''success'')) (\<lambda>success.
          if truthy success then
            bind (lift (get voiceResult ''audio'')) (\<lambda>audio.
            bind (lift (get voiceResult ''format'')) (\<lambda>format.
              return (AList.update ''voice'' (JObj [(''audio'', audio), (''format'', format)])
                        response)))
          else return response))
      else return response)"

text \<open>The step \<open>// Handle audio input (voice messages)\<close>, which gives \<open>finalMessage\<close>.\<close>

definition audio_input_p5 :: "world \<Rightarrow> body \<Rightarrow> jsval io" where
  "audio_input_p5 w b =
     (if truthy (audio_data b) \<and> truthy (audio_type b) then
        bind (lift (Buffer_from w (audio_data b))) (\<lambda>_.
        bind (invoke (SpeechToText (audio_data b))
                     (convertAudioToText w (audio_data b) (audio_type b))) (\<lambda>sttResult.
        bind (lift (get sttResult ''success'')) (\<lambda>success.
          if truthy success then lift (get sttResult ''text'') else return (message b))))
      else return (message b))"

definition system_error_p5 :: reply where
  "system_error_p5 =
     (200, [(''success'', JBool False), (''error'', JStr ''System error. Please try again.''),
            (''creator'', JStr ''Bruce Bera'')])"

definition bera_ai_p5 :: "world \<Rightarrow> body \<Rightarrow> reply \<times> call list" where
  "bera_ai_p5 w b =
     (let flag = dflt (JBool False) (voice b) in
      case bind (audio_input_p5 w b) (\<lambda>finalMessage.
             if \<not> truthy finalMessage then return message_required_srv1
             else if \<not> is_string finalMessage then lift (Inl TypeError)
             else
               bind (respond_p5 w (the_string finalMessage) (classify_p5 (the_string finalMessage)))
                 (\<lambda>response.
               bind (add_voice_p5 w flag response) (\<lambda>response.
                 return (200, [(''success'', JBool True), (''response'', JObj response),
                           (''system'', JStr ''Bera AI''), (''creator'', JStr ''Bruce Bera''),
                           (''timestamp'', JStr (now w))])))) [] of
        (Inr answer, calls) \<Rightarrow> (answer, calls)
      | (Inl error, calls) \<Rightarrow> (system_error_p5, calls))"

section \<open>The configuration of the outbound requests\<close>

text \<open>
  Every \<open>axios\<close> request of the seven programs with the \<open>timeout\<close> option of its
  configuration, in milliseconds; \<open>None\<close> where the configuration has no such option,
  in which case the library waits without limit.
\<close>

record request_config =
  program :: string
  client :: string
  timeout :: "nat option"

definition outbound_requests :: "request_config list" where
  "outbound_requests =
     [\<lparr>program = ''server.js 1'', client = ''GiftedAIService.getAIResponse'', timeout = Some 30000\<rparr>,
      \<lparr>program = ''server.js 1'', client = ''ElevenLabsService.generateSpeech'', timeout = Some 30000\<rparr>,
      \<lparr>program = ''server.js 1'', client = ''MusicRecognitionService.identifySong'', timeout = Some 15000\<rparr>,
      \<lparr>program = ''server.js 1'', client = ''YouTubeDownloadService.downloadMP3'', timeout = Some 30000\<rparr>,
      \<lparr>program = ''server.js 1'', client = ''YouTubeDownloadService.downloadMP4'', timeout = Some 30000\<rparr>,
      \<lparr>program = ''server.js 1'', client = ''YouTubeDownloadService.directMP3'', timeout = Some 30000\<rparr>,
      \<lparr>program = ''server.js 2'', client = ''OpenAIService.enhanceResponse'', timeout = Some 10000\<rparr>,
      \<lparr>program = ''server.js 2'', client = ''DownloadOrchestrator.processYouTubeMP3'', timeout = Some 30000\<rparr>,
      \<lparr>program = ''server.js 2'', client = ''DownloadOrchestrator.processYouTubeMP4'', timeout = Some 30000\<rparr>,
      \<lparr>program = ''server.js 2'', client = ''MusicRecognitionService.identifySong'', timeout = Some 15000\<rparr>,
      \<lparr>program = ''server.js 2'', client = ''VoiceService.generateSpeech'', timeout = Some 30000\<rparr>,
      \<lparr>program = ''part_000 1'', client = ''GiftedAIService.enhanceResponse'', timeout = Some 30000\<rparr>,
      \<lparr>program = ''part_000 1'', client = ''DownloadOrchestrator.processYouTubeMP3'', timeout = Some 30000\<rparr>,
      \<lparr>program = ''part_000 1'', client = ''DownloadOrchestrator.processYouTubeMP4'', timeout = Some 30000\<rparr>,
      \<lparr>program = ''part_000 1'', client = ''DownloadOrchestrator.processDirectMP3'', timeout = Some 30000\<rparr>,
      \<lparr>program = ''part_000 1'', client = ''MusicRecognitionService.identifySong'', timeout = Some 15000\<rparr>,
      \<lparr>program = ''part_000 1'', client = ''VoiceService.generateSpeech'', timeout = Some 30000\<rparr>,
      \<lparr>program = ''part_000 2'', client = ''GiftedAIService.getAIResponse'', timeout = Some 30000\<rparr>,
      \<lparr>program = ''part_000 2'', client = ''YouTubeSearchService.searchSong'', timeout = Some 15000\<rparr>,
      \<lparr>program = ''part_000 2'', client = ''YouTubeDownloadService.downloadMP3'', timeout = Some 60000\<rparr>,
      \<lparr>program = ''part_000 2'', client = ''YouTubeDownloadService.downloadMP4'', timeout = Some 60000\<rparr>,
      \<lparr>program = ''part_000 3'', client = ''OpenAIService.enhanceResponse'', timeout = Some 10000\<rparr>,
      \<lparr>program = ''part_000 3'', client = ''DownloadOrchestrator.processYouTubeMP3'', timeout = Some 30000\<rparr>,
      \<lparr>program = ''part_000 3'', client = ''DownloadOrchestrator.processYouTubeMP4'', timeout = Some 30000\<rparr>,
      \<lparr>program = ''part_000 3'', client = ''DownloadOrchestrator.processDirectMP3'', timeout = Some 30000\<rparr>,
      \<lparr>program = ''part_000 3'', client = ''MusicRecognitionService.identifySong'', timeout = Some 10000\<rparr>,
      \<lparr>program = ''part_000 3'', client = ''VoiceService.generateSpeech'', timeout = None\<rparr>,
      \<lparr>program = ''part_000 4'', client = ''OpenAIService.enhanceResponse'', timeout = Some 15000\<rparr>,
      \<lparr>program = ''part_000 4'', client = ''DownloadOrchestrator.processYouTubeMP3'', timeout = Some 30000\<rparr>,
      \<lparr>program = ''part_000 4'', client = ''DownloadOrchestrator.processYouTubeMP4'', timeout = Some 30000\<rparr>,
      \<lparr>program = ''part_000 4'', client = ''DownloadOrchestrator.processDirectMP3'', timeout = Some 30000\<rparr>,
      \<lparr>program = ''part_000 4'', client = ''MusicRecognitionService.identifySong'', timeout = Some 15000\<rparr>,
      \<lparr>program = ''part_000 4'', client = ''VoiceService.generateSpeech'', timeout = Some 30000\<rparr>,
      \<lparr>program = ''part_000 5'', client = ''GiftedAIService.getAIResponse'', timeout = Some 30000\<rparr>,
      \<lparr>program = ''part_000 5'', client = ''YouTubeSearchService.searchSong'', timeout = Some 30000\<rparr>,
      \<lparr>program = ''part_000 5'', client = ''YouTubeDownloadService.downloadMP3'', timeout = Some 60000\<rparr>,
      \<lparr>program = ''part_000 5'', client = ''YouTubeDownloadService.downloadMP4'', timeout = Some 60000\<rparr>,
      \<lparr>program = ''part_000 5'', client = ''ElevenLabsService.generateSpeech'', timeout = Some 30000\<rparr>,
      \<lparr>program = ''part_000 5'', client = ''MusicRecognitionService.identifySong'', timeout = Some 20000\<rparr>]"


text \<open>
  When the promise of a request settles, in milliseconds after the request was sent.
  The response comes after \<open>delay\<close> milliseconds, or never (\<open>None\<close>).  With the option
  \<open>timeout: t\<close> the library aborts the request, and rejects the promise, once \<open>t\<close>
  milliseconds have passed without a response; without the option it goes on waiting.
\<close>

definition settle_time :: "request_config \<Rightarrow> nat option \<Rightarrow> nat option" where
  "settle_time c delay =
     (case timeout c of
        None \<Rightarrow> delay
      | Some t \<Rightarrow> (case delay of None \<Rightarrow> Some t | Some d \<Rightarrow> Some (min d t)))"

section \<open>Observations and examples\<close>

text \<open>The \<open>response\<close> object inside an answer.\<close>

definition response_of :: "reply \<Rightarrow> (string \<times> jsval) list" where
  "response_of r = (case map_of (snd r) ''response'' of Some (JObj kvs) \<Rightarrow> kvs | _ \<Rightarrow> [])"

text \<open>A client returned, and what it returned is an object whose \<open>success\<close> is a boolean.\<close>

definition capability_result :: "exn + jsval \<Rightarrow> bool" where
  "capability_result r =
     (case r of
        Inr (JObj kvs) \<Rightarrow> (case map_of kvs ''success'' of Some (JBool b) \<Rightarrow> True | _ \<Rightarrow> False)
      | _ \<Rightarrow> False)"

text \<open>A call returned; it did not throw.\<close>

definition returned :: "exn + 'a \<Rightarrow> bool" where
  "returned r = (case r of Inr v \<Rightarrow> True | Inl e \<Rightarrow> False)"

text \<open>What a chat client gives when it has no completion: \<open>null\<close>, or an object with
  \<open>success: false\<close>.\<close>

definition failed :: "jsval \<Rightarrow> bool" where
  "failed v =
     (case v of JNull \<Rightarrow> True | JObj kvs \<Rightarrow> field kvs ''success'' = JBool False | _ \<Rightarrow> False)"

text \<open>A request that carries a text and nothing else.\<close>

definition say :: "string \<Rightarrow> body" where
  "say text =
     \<lparr>message = JStr text, sessionId = JUndefined, voiceEnabled = JUndefined,
      voice = JUndefined, audio_data = JUndefined, audio_type = JUndefined\<rparr>"

text \<open>Two worlds for the examples: one where no remote service answers and no key is
  set, and one where the text-to-speech service is configured and answers.\<close>

definition offline :: world where
  "offline =
     \<lparr>gpt4o = (\<lambda>prompt. Rejected), openai = (\<lambda>prompt. Rejected),
      elevenlabs = (\<lambda>text. Rejected), acrcloud = (\<lambda>audio. Rejected),
      youtube_search = (\<lambda>query. Rejected), ytmp3 = (\<lambda>url. Rejected),
      ytmp4 = (\<lambda>url. Rejected), dlmp3 = (\<lambda>url. Rejected),
      ELEVENLABS_API_KEY = None, OPENAI_API_KEY = None,
      ACRCLOUD_ACCESS_KEY = None, ACRCLOUD_SECRET_KEY = None,
      now = ''2024-01-01T00:00:00.000Z'',
      uuidv4 = ''00000000-0000-4000-8000-000000000000'',
      random = (\<lambda>n. 1 / 2),
      stringify = (\<lambda>v. ''{}''), uri_encode = (\<lambda>s. s),
      String_of = (\<lambda>v. ''[object Object]''), Number_of = (\<lambda>v. None),
      method_text = (\<lambda>v. Inl TypeError),
      Buffer_from = (\<lambda>v. Inr ()), FormData_append = (\<lambda>v. Inr ())\<rparr>"

definition studio :: world where
  "studio = offline\<lparr>elevenlabs := (\<lambda>text. Resolved ''SUQz''), ELEVENLABS_API_KEY := Some ''sk_live''\<rparr>"

text \<open>A step that, when it does not throw, gives a value with a property.\<close>

definition settles :: "('a \<Rightarrow> bool) \<Rightarrow> exn + 'a \<Rightarrow> bool" where
  "settles P r = (case r of Inl e \<Rightarrow> True | Inr v \<Rightarrow> P v)"

text \<open>An object with a boolean \<open>success\<close>, and one whose first property is
  \<open>success: true\<close>.\<close>

definition flagged :: "jsval \<Rightarrow> bool" where
  "flagged v = capability_result (Inr v)"

definition succeeded :: "jsval \<Rightarrow> bool" where
  "succeeded v = (\<exists>kvs. v = JObj ((''success'', JBool True) # kvs))"

text \<open>The envelopes of the first program of \<open>server.js\<close> and of the first program of
  \<open>part_000\<close>, whose identity branch adds one more property at the end.\<close>

definition envelope_srv1 :: "world \<Rightarrow> (string \<times> jsval) list \<Rightarrow> reply" where
  "envelope_srv1 w response =
     (200, [(''success'', JBool True), (''response'', JObj response),
            (''system'', JStr ''Bera AI''), (''creator'', JStr ''Bruce Bera''),
            (''timestamp'', JStr (now w))])"

definition envelope_p1 :: "world \<Rightarrow> body \<Rightarrow> (string \<times> jsval) list \<Rightarrow> (string \<times> jsval) list \<Rightarrow> reply" where
  "envelope_p1 w b tail response =
     (200, [(''success'', JBool True), (''session_id'', dflt (JStr (uuidv4 w)) (sessionId b)),
            (''response'', JObj response), (''timestamp'', JStr (now w)),
            (''system'', JStr ''Bera AI''), (''creator'', JStr ''Bruce Bera'')] @ tail)"

section \<open>Evaluation\<close>

text \<open>
  The case mappings on the bits of a character, and the equations that evaluate a
  pattern on a given text.  They are used with \<open>simp only\<close>, which keeps the evaluation
  of the longer texts short.
\<close>

lemma toLowerCase_char_Char:
  "toLowerCase_char (Char b0 b1 b2 b3 b4 b5 b6 b7) =
     (if b6 \<and> \<not> b5 \<and>
         (if b7 then \<not> (b4 \<and> b2 \<and> b1 \<and> b0)
          else (b0 \<or> b1 \<or> b2 \<or> b3 \<or> b4) \<and> \<not> (b4 \<and> b3 \<and> (b2 \<or> (b1 \<and> b0))))
      then Char b0 b1 b2 b3 b4 True b6 b7 else Char b0 b1 b2 b3 b4 b5 b6 b7)"
  by (cases b0; cases b1; cases b2; cases b3; cases b4; cases b5; cases b6; cases b7;
      simp add: toLowerCase_char_def)

lemma canonicalize_Char:
  "canonicalize (Char b0 b1 b2 b3 b4 b5 b6 b7) =
     (if b6 \<and> b5 \<and>
         (if b7 then \<not> (b4 \<and> b2 \<and> b1 \<and> b0)
          else (b0 \<or> b1 \<or> b2 \<or> b3 \<or> b4) \<and> \<not> (b4 \<and> b3 \<and> (b2 \<or> (b1 \<and> b0))))
      then Char b0 b1 b2 b3 b4 False b6 b7 else Char b0 b1 b2 b3 b4 b5 b6 b7)"
  by (cases b0; cases b1; cases b2; cases b3; cases b4; cases b5; cases b6; cases b7;
      simp add: canonicalize_def)

lemma length_eval: "length [] = 0" "length (x # xs) = Suc (length xs)"
  by simp_all

lemmas rx_defs =
  url_rx_def identity_rx_srv1_def download_rx_def youtube_rx_def recognition_rx_def
  generation_rx_srv1_def help_rx_srv1_def identityPatterns_p1_def recognition2_rx_def
  generation_rx_p1_def help_rx_p1_def identityPatterns_srv2_def song_rx_def song2_rx_def
  video_rx_p2_def as_video_rx_def url_host_rx_def strip_rx_def format_words_rx_def
  quotes_rx_def video_words_rx_def audio_words_rx_def clean_rx_p2_def video_rx_p5_def
  voice_rx_def title_chars_def title_rx_def spaces_then_def patterns_p5_def
  alt.simps lits_def gap.simps words_def seq.simps

lemmas js_eval =
  toLowerCase_char_Char canonicalize_Char char.inject isLineTerminator_def isWhiteSpace_def
  char_eq_def toLowerCase_def trim_def
  simp_thms if_True if_False
  list.case list.inject list.distinct list.map append.simps rev.simps dropWhile.simps
  length_eval list_ex_Nil_iff list_ex_Cons_iff
  diff_Suc_Suc diff_0_eq_0 minus_nat.diff_0 Suc_less_eq zero_less_Suc not_less0
  take_Suc_Cons take_0
  option.case option.inject option.distinct
  prod.case fst_conv snd_conv prod.inject
  list.set insert_iff empty_iff
  lit.simps star.simps matcher.simps match_here_def regex_exec.simps regex_test_def
  remove_all.simps in_cls.simps first_capture.simps
  prefix_code includes_str.simps
  jsval.distinct jsval.inject truthy.simps or_else_def
  rx_defs

lemmas js_cong = if_weak_cong option.case_cong_weak list.case_cong_weak prod.case_cong_weak

section \<open>Patterns that are a choice of literals\<close>

lemma lit_exact: "lit False w s = (if prefix w s then Some (drop (length w) s) else None)"
proof (induction w arbitrary: s)
  case Nil
  show ?case by simp
next
  case (Cons p ps)
  show ?case by (cases s) (simp_all add: Cons.IH char_eq_def)
qed

lemma match_here_Lit: "match_here False (Lit w) s \<noteq> None \<longleftrightarrow> prefix w s"
  by (simp add: match_here_def lit_exact)

lemma match_here_Alt:
  "match_here ic (Alt a b) s \<noteq> None \<longleftrightarrow> match_here ic a s \<noteq> None \<or> match_here ic b s \<noteq> None"
  by (auto simp: match_here_def split: option.splits)

lemma regex_test_Nil: "regex_test ic r [] \<longleftrightarrow> match_here ic r [] \<noteq> None"
  by (auto simp: regex_test_def split: option.splits)

lemma regex_test_Cons:
  "regex_test ic r (x # xs) \<longleftrightarrow> match_here ic r (x # xs) \<noteq> None \<or> regex_test ic r xs"
  by (auto simp: regex_test_def split: option.splits)

lemma regex_test_Alt: "regex_test ic (Alt a b) s \<longleftrightarrow> regex_test ic a s \<or> regex_test ic b s"
  by (induction s) (auto simp add: regex_test_Nil regex_test_Cons match_here_Alt simp del: not_None_eq)

lemma regex_test_Lit: "regex_test False (Lit w) s \<longleftrightarrow> includes_str s w"
  by (induction s) (auto simp add: regex_test_Nil regex_test_Cons match_here_Lit simp del: not_None_eq)

lemma includes_str_map: "includes_str s w \<Longrightarrow> includes_str (map f s) (map f w)"
proof (induction s)
  case Nil
  then show ?case by simp
next
  case (Cons x xs)
  then show ?case
    using map_mono_prefix [of w "x # xs" f] by auto
qed

lemma includes_str_toLowerCase:
  "includes_str s w \<Longrightarrow> toLowerCase w = w \<Longrightarrow> includes_str (toLowerCase s) w"
  using includes_str_map [of s w toLowerCase_char] by (simp add: toLowerCase_def)

lemma video_words: "regex_test False video_words_rx s \<longleftrightarrow>
    includes_str s ''mp4'' \<or> includes_str s ''video'' \<or> includes_str s ''visual''"
  by (simp add: video_words_rx_def lits_def regex_test_Alt regex_test_Lit)

lemma audio_words: "regex_test False audio_words_rx s \<longleftrightarrow>
    includes_str s ''mp3'' \<or> includes_str s ''audio''"
  by (simp add: audio_words_rx_def lits_def regex_test_Alt regex_test_Lit)

lemma youtube_words: "regex_test False youtube_rx s \<longleftrightarrow>
    includes_str s ''yt'' \<or> includes_str s ''youtu.be'' \<or> includes_str s ''youtube.com''"
  by (simp add: youtube_rx_def lits_def regex_test_Alt regex_test_Lit)

section \<open>The format of a download\<close>

text \<open>
  Claim C8, as amended.  \<open>getDownloadFormat\<close> returns \<open>MP4\<close> exactly when the lower-cased
  text contains one of \<open>mp4\<close>, \<open>video\<close>, \<open>visual\<close> and neither \<open>mp3\<close> nor \<open>audio\<close>, and
  \<open>MP3\<close> for every other text, also one that contains none of these words.  The format
  is a function of the text alone, so extracting it again gives the same format.
\<close>

theorem getDownloadFormat_tokens:
  "getDownloadFormat text =
     (if (includes_str (toLowerCase text) ''mp4'' \<or> includes_str (toLowerCase text) ''video'' \<or>
          includes_str (toLowerCase text) ''visual'') \<and>
         \<not> (includes_str (toLowerCase text) ''mp3'' \<or> includes_str (toLowerCase text) ''audio'')
      then ''MP4'' else ''MP3'')"
  by (simp add: getDownloadFormat_def video_words audio_words)

text \<open>Three texts: a video word alone, a video word beside an audio word, neither.\<close>

theorem getDownloadFormat_tokens_witness:
  "getDownloadFormat ''Play it as MP4'' = ''MP4'' \<and> getDownloadFormat ''mp4 and mp3'' = ''MP3'' \<and>
   getDownloadFormat ''hello'' = ''MP3''"
proof -
  have a: "toLowerCase ''Play it as MP4'' = ''play it as mp4''"
    and b: "toLowerCase ''mp4 and mp3'' = ''mp4 and mp3''"
    and c: "toLowerCase ''hello'' = ''hello''"
    by (simp_all only: js_eval cong: js_cong)
  show ?thesis
    using getDownloadFormat_tokens [of "''Play it as MP4''"]
      getDownloadFormat_tokens [of "''mp4 and mp3''"] getDownloadFormat_tokens [of "''hello''"]
    unfolding a b c by (simp only: js_eval cong: js_cong)
qed

text \<open>
  The claim as it was stated names \<open>video\<close> and \<open>mp4\<close> only: the text \<open>visual\<close> contains
  neither, and no audio word, and its format is \<open>MP4\<close>.
\<close>

theorem getDownloadFormat_visual_counterexample:
  "getDownloadFormat ''visual'' = ''MP4'' \<and>
   \<not> includes_str (toLowerCase ''visual'') ''mp4'' \<and>
   \<not> includes_str (toLowerCase ''visual'') ''video''"
  by (simp only: getDownloadFormat_def Let_def js_eval cong: js_cong)

section \<open>The two letters \<open>yt\<close>\<close>

text \<open>
  Claim C10, as amended.  For every text that contains \<open>yt\<close> anywhere, the classifier of
  the first program of \<open>part_000\<close> returns \<open>media_download\<close>, whatever rule for music
  recognition, music generation or help the text also matches.  The classifier of the
  first program of \<open>server.js\<close> returns \<open>download\<close> for it unless the text matches the
  identity rule, which that classifier checks first and answers with \<open>identity\<close>.
\<close>

theorem yt_anywhere:
  "includes_str text ''yt'' \<Longrightarrow>
     classify_p1 text = ''media_download'' \<and>
     (if regex_test True identity_rx_srv1 text then classify_srv1 text = ''identity''
      else classify_srv1 text = ''download'')"
proof -
  assume "includes_str text ''yt''"
  moreover have "toLowerCase ''yt'' = ''yt''"
    by (simp only: js_eval cong: js_cong)
  ultimately have "includes_str (toLowerCase text) ''yt''"
    by (rule includes_str_toLowerCase)
  then have "regex_test False youtube_rx (toLowerCase text)"
    by (simp add: youtube_words)
  then show ?thesis
    by (simp add: classify_p1_def classify_srv1_def)
qed

text \<open>The word \<open>analytics\<close>.\<close>

theorem yt_anywhere_witness:
  "includes_str ''analytics'' ''yt'' \<and> classify_p1 ''analytics'' = ''media_download'' \<and>
   classify_srv1 ''analytics'' = ''download''"
proof -
  have h: "includes_str ''analytics'' ''yt''"
    by (simp only: js_eval cong: js_cong)
  have n: "\<not> regex_test True identity_rx_srv1 ''analytics''"
    by (simp only: js_eval cong: js_cong)
  show ?thesis
    using yt_anywhere [OF h] h n by simp
qed

text \<open>
  The claim as it was stated has no exception: \<open>who made you anything\<close> contains \<open>yt\<close>
  and the classifier of \<open>server.js\<close> returns \<open>identity\<close>.
\<close>

theorem yt_identity_counterexample:
  "includes_str ''who made you anything'' ''yt'' \<and>
   classify_srv1 ''who made you anything'' = ''identity''"
  by (simp only: classify_srv1_def Let_def js_eval cong: js_cong)

section \<open>Reading a property\<close>

text \<open>The properties that the program reads from an object are not inherited ones.\<close>

lemma get_nullish [simp]: "get JUndefined k = Inl TypeError" "get JNull k = Inl TypeError"
  by simp_all

lemma get_obj [simp]:
  "k \<notin> {''constructor'', ''hasOwnProperty'', ''isPrototypeOf'', ''propertyIsEnumerable'',
         ''toLocaleString'', ''toString'', ''valueOf'', ''__defineGetter__'',
         ''__defineSetter__'', ''__lookupGetter__'', ''__lookupSetter__''} \<Longrightarrow>
   get (JObj kvs) k = Inr (field kvs k)"
  by (simp add: field_def inherited_def object_methods_def split: option.splits)

declare get.simps [simp del]

section \<open>The clients\<close>

lemma settles_Inl [simp]: "settles P (Inl e)"
  by (simp add: settles_def)

lemma settles_Inr [simp]: "settles P (Inr v) = P v"
  by (simp add: settles_def)

lemma settles_bind: "(\<And>v. settles P (f v)) \<Longrightarrow> settles P (bind_exn x f)"
  by (cases x) (simp_all add: bind_exn_def)

lemma settles_bind_with:
  "settles Q x \<Longrightarrow> (\<And>v. Q v \<Longrightarrow> settles P (f v)) \<Longrightarrow> settles P (bind_exn x f)"
  by (cases x) (simp_all add: bind_exn_def)

lemma settles_if: "(c \<Longrightarrow> settles P x) \<Longrightarrow> (\<not> c \<Longrightarrow> settles P y) \<Longrightarrow> settles P (if c then x else y)"
  by simp

lemma settles_option: "settles P x \<Longrightarrow> (\<And>v. settles P (f v)) \<Longrightarrow> settles P (case_option x f y)"
  by (cases y) simp_all

lemma settles_try: "settles P body \<Longrightarrow> (\<And>e. settles P (h e)) \<Longrightarrow> settles P (try_catch body h)"
  by (cases body) (simp_all add: try_catch_def)

lemma try_catch_result:
  "settles P body \<Longrightarrow> (\<And>e. \<exists>v. h e = Inr v \<and> P v) \<Longrightarrow> \<exists>v. try_catch body h = Inr v \<and> P v"
  by (cases body) (auto simp: try_catch_def)

lemma flagged_obj [simp]:
  "flagged (JObj ((''success'', JBool b) # kvs))"
  by (simp add: flagged_def capability_result_def)

lemma capability_result_iff: "capability_result r \<longleftrightarrow> (\<exists>v. r = Inr v \<and> flagged v)"
  by (cases r) (auto simp: capability_result_def flagged_def)

lemmas settles_intros = settles_bind settles_if settles_option settles_Inl

lemma generateSpeech_srv1_result: "capability_result (generateSpeech_srv1 w t)"
  unfolding capability_result_iff generateSpeech_srv1_def
  by (rule try_catch_result) (auto intro!: settles_intros)

lemma generateSpeech_p1_result: "capability_result (generateSpeech_p1 w t)"
  unfolding capability_result_iff generateSpeech_p1_def
  by (rule try_catch_result) (auto intro!: settles_intros)

lemma generateSpeech_p5_result: "capability_result (generateSpeech_p5 w t)"
  unfolding capability_result_iff generateSpeech_p5_def
  by (rule try_catch_result) (auto intro!: settles_intros)

lemma downloadMP3_srv1_result: "capability_result (downloadMP3_srv1 w u)"
  unfolding capability_result_iff downloadMP3_srv1_def download_failed_srv1_def
  by (rule try_catch_result) (auto intro!: settles_intros)

lemma downloadMP4_srv1_result: "capability_result (downloadMP4_srv1 w u)"
  unfolding capability_result_iff downloadMP4_srv1_def download_failed_srv1_def
  by (rule try_catch_result) (auto intro!: settles_intros)

lemma directMP3_srv1_result: "capability_result (directMP3_srv1 w u)"
  unfolding capability_result_iff directMP3_srv1_def download_failed_srv1_def
  by (rule try_catch_result) (auto intro!: settles_intros)

lemma downloadMP3_p2_result: "capability_result (downloadMP3_p2 w u)"
  unfolding capability_result_iff downloadMP3_p2_def
  by (rule try_catch_result) (auto intro!: settles_intros)

lemma downloadMP4_p2_result: "capability_result (downloadMP4_p2 w u)"
  unfolding capability_result_iff downloadMP4_p2_def
  by (rule try_catch_result) (auto intro!: settles_intros)

text \<open>
  When the download service answers with a text, the link that the client returns is
  the method \<open>link\<close> that every string inherits: the test for a text that holds an
  address comes after \<open>response.data.link\<close> and is not reached.
\<close>

lemma get_text_link: "get (JStr s) ''link'' = Inr (JFun ''link'')"
  by (simp add: get.simps array_index_def is_digit_def inherited_string_def inherited_def
      string_methods_def)

lemma get_text_plain:
  "get (JStr s) ''download_link'' = Inr JUndefined" "get (JStr s) ''url'' = Inr JUndefined"
  "get (JStr s) ''title'' = Inr JUndefined" "get (JStr s) ''data'' = Inr JUndefined"
  by (simp_all add: get.simps array_index_def is_digit_def inherited_string_def inherited_def
      string_methods_def object_methods_def)

lemma download_link_of_text: "s \<noteq> [] \<Longrightarrow> download_link_p2 (JStr s) = Inr (JFun ''link'')"
  by (simp add: download_link_p2_def get_text_link get_text_plain bind_exn_def)

lemma downloadMP3_p2_of_text:
  assumes "ytmp3 w (JStr u) = Resolved (JStr s)" "s \<noteq> []" "\<not> includes_str u ''/results?''"
  shows "downloadMP3_p2 w (JStr u) =
     Inr (JObj [(''success'', JBool True), (''download_link'', JFun ''link''),
            (''title'', JStr ''YouTube Audio''), (''format'', JStr ''MP3''),
            (''quality'', JStr ''128kbps''), (''note'', JStr ''Click to download''),
            (''creator'', JStr ''Bruce Bera'')])"
  using assms
  by (simp add: downloadMP3_p2_def url_includes_def encodeURIComponent_def download_link_of_text
      title_p2_def get_text_plain bind_exn_def try_catch_def)

lemma first_video_succeeded:
  "settles (\<lambda>found. case found of None \<Rightarrow> True | Some v \<Rightarrow> succeeded v) (first_video w d)"
  unfolding first_video_def
  by (auto intro!: settles_intros simp: succeeded_def)

lemma succeeded_flagged: "succeeded v \<Longrightarrow> flagged v"
  by (auto simp: succeeded_def)

lemma first_video_or:
  assumes "\<And>v. settles succeeded (g v)"
  shows "settles succeeded
     (bind_exn (first_video w d)
        (\<lambda>found. case found of None \<Rightarrow> bind_exn x g | Some video \<Rightarrow> Inr video))"
proof (rule settles_bind_with [OF first_video_succeeded])
  fix found
  assume "case found of None \<Rightarrow> True | Some v \<Rightarrow> succeeded v"
  then show "settles succeeded (case found of None \<Rightarrow> bind_exn x g | Some video \<Rightarrow> Inr video)"
    using assms by (cases found) (auto intro: settles_bind)
qed

lemma searchSong_p2_result: "capability_result (searchSong_p2 w q)"
  unfolding capability_result_iff searchSong_p2_def Let_def
proof (rule try_catch_result)
  let ?found = "\<lambda>found. case found of None \<Rightarrow> True | Some v \<Rightarrow> flagged v"
  have inner: "settles ?found
      (try_catch (bind_exn (await (youtube_search w s)) (first_video w)) (\<lambda>searchError. Inr None))" for s
  proof (rule settles_try)
    have "settles ?found (first_video w d)" for d
      using first_video_succeeded [of w d]
      by (cases "first_video w d") (auto simp: succeeded_flagged split: option.splits)
    then show "settles ?found (bind_exn (await (youtube_search w s)) (first_video w))"
      by (rule settles_bind)
  qed simp
  have rest: "settles flagged
      (case found of
         None \<Rightarrow> bind_exn (encodeURIComponent w q) (\<lambda>encoded.
                  Inr (JObj [(''success'', JBool True), (''title'', q),
                     (''url'', JStr (''https://www.youtube.com/results?search_query='' @ encoded)),
                     (''note'', JStr ''Search results - select video manually'')]))
       | Some video \<Rightarrow> Inr video)" if "?found found" for found
    using that by (cases found) (auto intro!: settles_bind)
  show "settles flagged
     (if \<not> is_string q then Inl TypeError
      else bind_exn
        (encodeURIComponent w
          (JStr (trim (remove_all True clean_rx_p2 (the_string q)) @ '' official audio'')))
        (\<lambda>encodedQuery.
          bind_exn
            (try_catch
              (bind_exn
                (await (youtube_search w
                   (trim (remove_all True clean_rx_p2 (the_string q)) @ '' official audio'')))
                (first_video w))
              (\<lambda>searchError. Inr None))
            (\<lambda>found.
              case found of
                None \<Rightarrow> bind_exn (encodeURIComponent w q) (\<lambda>encoded.
                  Inr (JObj [(''success'', JBool True), (''title'', q),
                     (''url'', JStr (''https://www.youtube.com/results?search_query='' @ encoded)),
                     (''note'', JStr ''Search results - select video manually'')]))
              | Some video \<Rightarrow> Inr video)))"
    by (intro settles_if settles_Inl settles_bind settles_bind_with [OF inner] rest)
qed auto

text \<open>
  The search client of the fifth program returns, with \<open>success: true\<close>, for every
  query that \<open>encodeURIComponent\<close> accepts, which every string is.  For a query that it
  rejects the client throws what \<open>encodeURIComponent\<close> throws; an object whose
  \<open>toString\<close> is not a function is such a query.
\<close>

lemma encodeURIComponent_string: "encodeURIComponent w (JStr s) = Inr (uri_encode w s)"
  by (simp add: encodeURIComponent_def bind_exn_def)

lemma searchSong_p5_succeeded:
  assumes "returned (encodeURIComponent w q)"
  shows "\<exists>v. searchSong_p5 w q = Inr v \<and> succeeded v"
proof -
  obtain encoded where e: "encodeURIComponent w q = Inr encoded"
    using assms by (cases "encodeURIComponent w q") (simp_all add: returned_def)
  show ?thesis
    unfolding searchSong_p5_def
  proof (rule try_catch_result)
    show "settles succeeded
       (bind_exn (to_string w q) (\<lambda>query.
        bind_exn (encodeURIComponent w (JStr (query @ '' official audio''))) (\<lambda>encodedQuery.
        bind_exn (await (youtube_search w (query @ '' official audio''))) (\<lambda>data.
        bind_exn (first_video w data) (\<lambda>found.
          case found of
            None \<Rightarrow> bind_exn (encodeURIComponent w q) (\<lambda>encoded.
              Inr (JObj [(''success'', JBool True), (''title'', q),
                (''url'', JStr (''https://www.youtube.com/results?search_query='' @ encoded)),
                (''note'', JStr ''Search results - click to find video'')]))
          | Some video \<Rightarrow> Inr video)))))"
      by (intro settles_bind first_video_or) (simp add: succeeded_def)
  qed (simp add: e bind_exn_def succeeded_def)
qed

lemma searchSong_p5_result:
  "returned (encodeURIComponent w q) \<Longrightarrow> capability_result (searchSong_p5 w q)"
  using searchSong_p5_succeeded [of w q] by (auto simp: capability_result_iff succeeded_flagged)

lemma searchSong_p5_throws:
  "to_string w q = Inl e \<Longrightarrow> searchSong_p5 w q = Inl e"
  by (simp add: searchSong_p5_def encodeURIComponent_def try_catch_def bind_exn_def)

lemma to_string_own_toString: "to_string w (JObj [(''toString'', JNum 1)]) = Inl TypeError"
  by (simp add: own_method_def)

lemma searchSong_p5_rejects:
  "searchSong_p5 w (JObj [(''toString'', JNum 1)]) = Inl TypeError \<and>
   \<not> returned (searchSong_p5 w (JObj [(''toString'', JNum 1)]))"
  by (simp add: searchSong_p5_throws [OF to_string_own_toString] returned_def)

lemma identifySong_srv1_result: "capability_result (identifySong_srv1 w a t)"
  unfolding capability_result_iff identifySong_srv1_def
  by (rule try_catch_result) (auto intro!: settles_intros)

lemma convertAudioToText_result: "capability_result (convertAudioToText w a t)"
  unfolding capability_result_iff convertAudioToText_def
  by (rule try_catch_result) (auto intro!: settles_intros)

lemma getAIResponse_returned: "returned (getAIResponse w p)"
  by (simp add: getAIResponse_def try_catch_def returned_def split: sum.splits)

lemma enhanceResponse_p1_result:
  "enhanceResponse_p1 w p = Inr JNull \<or> capability_result (enhanceResponse_p1 w p)"
proof -
  have "\<exists>v. enhanceResponse_p1 w p = Inr v \<and> (v = JNull \<or> flagged v)"
    unfolding enhanceResponse_p1_def
    by (rule try_catch_result) (auto intro!: settles_intros)
  then show ?thesis
    by (auto simp: capability_result_iff)
qed

lemma enhanceResponse_srv2_result:
  "enhanceResponse_srv2 w p = Inr JNull \<or> capability_result (enhanceResponse_srv2 w p)"
proof -
  have "\<exists>v. enhanceResponse_srv2 w p = Inr v \<and> (v = JNull \<or> flagged v)"
    unfolding enhanceResponse_srv2_def
    by (rule try_catch_result) (auto intro!: settles_intros)
  then show ?thesis
    by (auto simp: capability_result_iff)
qed

text \<open>Where no chat service answers, the chat clients return \<open>null\<close>.\<close>

lemma offline_gpt4o: "getAIResponse offline prompt = Inr JNull"
  by (simp add: getAIResponse_def offline_def try_catch_def bind_exn_def)

lemma offline_enhance: "enhanceResponse_p1 offline prompt = Inr JNull"
  by (simp add: enhanceResponse_p1_def offline_def try_catch_def bind_exn_def)

lemma offline_openai: "enhanceResponse_srv2 offline prompt = Inr JNull"
  by (simp add: enhanceResponse_srv2_def offline_def try_catch_def openai_configured_srv2_def)

text \<open>
  Claim C7, as amended.  No client lets an exception escape: whatever the remote service
  does, every client returns a value.  The clients for text to speech, music
  recognition, media search, media download and speech to text return an object whose
  \<open>success\<close> is a boolean, for every input and every outcome.  The chat clients do not:
  \<open>getAIResponse\<close> returns the completion itself and \<open>null\<close> when the request fails, and
  \<open>enhanceResponse\<close> returns \<open>null\<close> or an object with \<open>success: true\<close>.  For the search
  client of the fifth program of \<open>part_000\<close> this is stated of the queries that
  \<open>encodeURIComponent\<close> accepts.
\<close>

theorem clients_never_throw:
  "returned (getAIResponse w prompt) \<and>
   (gpt4o w prompt = Rejected \<longrightarrow> getAIResponse w prompt = Inr JNull) \<and>
   (enhanceResponse_p1 w prompt = Inr JNull \<or> capability_result (enhanceResponse_p1 w prompt)) \<and>
   (enhanceResponse_srv2 w prompt = Inr JNull \<or> capability_result (enhanceResponse_srv2 w prompt)) \<and>
   capability_result (generateSpeech_srv1 w speech) \<and>
   capability_result (generateSpeech_p1 w speech) \<and>
   capability_result (generateSpeech_p5 w speech) \<and>
   capability_result (identifySong_srv1 w audio mimeType) \<and>
   capability_result (searchSong_p2 w query) \<and>
   (returned (encodeURIComponent w query) \<longrightarrow> capability_result (searchSong_p5 w query)) \<and>
   capability_result (downloadMP3_srv1 w url) \<and>
   capability_result (downloadMP4_srv1 w url) \<and>
   capability_result (directMP3_srv1 w url) \<and>
   capability_result (downloadMP3_p2 w url) \<and>
   capability_result (downloadMP4_p2 w url) \<and>
   capability_result (convertAudioToText w audio mimeType)"
proof -
  have "gpt4o w prompt = Rejected \<longrightarrow> getAIResponse w prompt = Inr JNull"
    by (simp add: getAIResponse_def try_catch_def bind_exn_def)
  then show ?thesis
    by (simp add: getAIResponse_returned enhanceResponse_p1_result enhanceResponse_srv2_result
        generateSpeech_srv1_result generateSpeech_p1_result generateSpeech_p5_result
        identifySong_srv1_result searchSong_p2_result searchSong_p5_result
        downloadMP3_srv1_result downloadMP4_srv1_result directMP3_srv1_result
        downloadMP3_p2_result downloadMP4_p2_result convertAudioToText_result)
qed

text \<open>A chat request that is rejected, and a search for a song by its name.\<close>

theorem clients_never_throw_witness:
  "gpt4o offline ''hello'' = Rejected \<and> getAIResponse offline ''hello'' = Inr JNull \<and>
   capability_result (generateSpeech_p1 offline (JStr ''hello'')) \<and>
   returned (encodeURIComponent offline (JStr ''hello'')) \<and>
   capability_result (searchSong_p5 offline (JStr ''hello''))"
  using clients_never_throw [of offline "''hello''" "JStr ''hello''" _ _ "JStr ''hello''"]
  by (simp add: offline_def encodeURIComponent_string returned_def)

text \<open>
  The claim as it was stated has every client return an object with a \<open>success\<close> flag:
  the chat client of the first program of \<open>server.js\<close> returns a bare \<open>null\<close>.
\<close>

theorem chat_client_null_counterexample:
  "getAIResponse offline ''hello'' = Inr JNull \<and>
   \<not> capability_result (getAIResponse offline ''hello'')"
  by (simp add: offline_gpt4o capability_result_def)

section \<open>Steps of a handler\<close>

lemma return_apply: "return x cs = (Inr x, cs)"
  by (simp add: return_def)

lemma lift_apply: "lift r cs = (r, cs)"
  by (simp add: lift_def)

lemma invoke_apply: "invoke c r cs = (r, cs @ [c])"
  by (simp add: invoke_def)

lemma bind_apply:
  "bind x f cs = (case x cs of (Inl e, cs') \<Rightarrow> (Inl e, cs') | (Inr v, cs') \<Rightarrow> f v cs')"
  by (simp add: bind_def)

lemmas io_simps = return_apply lift_apply invoke_apply bind_apply

lemma field_update: "field (AList.update k v al) k' = (if k' = k then v else field al k')"
  by (simp add: field_def update_conv')

lemma field_Cons: "field ((k, v) # kvs) k' = (if k' = k then v else field kvs k')"
  by (auto simp: field_def)

lemma field_Nil: "field [] k = JUndefined"
  by (simp add: field_def)

section \<open>Text to speech inside the handlers\<close>

lemma generateSpeech_srv1_cases:
  "generateSpeech_srv1 w t =
     Inr (JObj [(''success'', JBool False), (''error'', JStr ''Voice generation failed'')]) \<or>
   (\<exists>a. is_set (ELEVENLABS_API_KEY w) \<and> elevenlabs w t = Resolved a \<and>
        generateSpeech_srv1 w t =
          Inr (JObj [(''success'', JBool True), (''audio'', JStr a), (''format'', JStr ''audio/mpeg'')]))"
  by (cases "elevenlabs w t") (simp_all add: generateSpeech_srv1_def try_catch_def bind_exn_def)

lemma add_voice_srv1_cases:
  "add_voice_srv1 w flag response cs =
     (Inr response, cs @ (if flag = JBool True then [TextToSpeech (field response ''message'')] else [])) \<or>
   (\<exists>a. is_set (ELEVENLABS_API_KEY w) \<and>
      elevenlabs w (field response ''message'') = Resolved a \<and> flag = JBool True \<and>
      add_voice_srv1 w flag response cs =
        (Inr (AList.update ''voice'' (JObj [(''audio'', JStr a), (''format'', JStr ''audio/mpeg'')]) response),
         cs @ [TextToSpeech (field response ''message'')]))"
  using generateSpeech_srv1_cases [of w "field response ''message''"]
  by (auto simp: add_voice_srv1_def io_simps field_Cons field_Nil)

lemma generateSpeech_p1_cases:
  "(\<exists>e. generateSpeech_p1 w t = Inr (JObj [(''success'', JBool False), (''error'', JStr e)])) \<or>
   (\<exists>a. is_set (ELEVENLABS_API_KEY w) \<and> elevenlabs w t = Resolved a \<and>
        generateSpeech_p1 w t =
          Inr (JObj [(''success'', JBool True), (''audio'', JStr a), (''format'', JStr ''audio/mpeg''),
                     (''voiceModel'', JStr ''ElevenLabs'')]))"
  by (cases "elevenlabs w t") (simp_all add: generateSpeech_p1_def try_catch_def bind_exn_def)

lemma add_voice_p1_cases:
  "add_voice_p1 w flag response cs =
     (Inr response, cs @ (if truthy flag then [TextToSpeech (field response ''message'')] else [])) \<or>
   (\<exists>a. is_set (ELEVENLABS_API_KEY w) \<and>
      elevenlabs w (field response ''message'') = Resolved a \<and> truthy flag \<and>
      add_voice_p1 w flag response cs =
        (Inr (AList.update ''voice_format'' (JStr ''audio/mpeg'')
               (AList.update ''voice_audio'' (JStr a) response)),
         cs @ [TextToSpeech (field response ''message'')]))"
  using generateSpeech_p1_cases [of w "field response ''message''"]
  by (auto simp: add_voice_p1_def io_simps field_Cons field_Nil)

lemma identity_needs_text_srv1: "\<not> regex_test True identity_rx_srv1 []"
  by (simp only: js_eval cong: js_cong)

lemma identity_needs_text_p1: "\<not> checkIdentityQuestions_p1 []"
  by (simp only: checkIdentityQuestions_p1_def js_eval cong: js_cong)

lemma respond_identity_srv1:
  "respond_srv1 w text ''identity'' cs =
     (Inr [(''type'', JStr ''identity''), (''message'', JStr identity_message_srv1),
           (''creator'', JStr ''Bruce Bera'')], cs)"
  by (simp add: respond_srv1_def io_simps)

section \<open>Identity questions\<close>

text \<open>
  Claim C1, as amended.  For every text that matches an identity pattern of the program
  (the identity rule of the classifier in the first program of \<open>server.js\<close>,
  \<open>checkIdentityQuestions\<close> in the first program of \<open>part_000\<close>), the handler of
  \<open>/api/bera-ai\<close> answers with success, the identity type and the fixed ownership
  message, whatever download, recognition or other keywords the text also holds.  No
  other branch runs.  The one client that can be invoked is text to speech, on the
  identity message, and only when the request asks for voice; without voice no client is
  invoked.
\<close>

theorem identity_first:
  assumes "message b = JStr text"
  shows "(regex_test True identity_rx_srv1 text \<longrightarrow>
           fst (fst (bera_ai_srv1 w b)) = 200 \<and>
           field (snd (fst (bera_ai_srv1 w b))) ''success'' = JBool True \<and>
           field (response_of (fst (bera_ai_srv1 w b))) ''type'' = JStr ''identity'' \<and>
           field (response_of (fst (bera_ai_srv1 w b))) ''message'' = JStr identity_message_srv1 \<and>
           snd (bera_ai_srv1 w b) =
             (if dflt (JBool False) (voice b) = JBool True
              then [TextToSpeech (JStr identity_message_srv1)] else [])) \<and>
         (checkIdentityQuestions_p1 text \<longrightarrow>
           fst (fst (bera_ai_p1 w b)) = 200 \<and>
           field (snd (fst (bera_ai_p1 w b))) ''success'' = JBool True \<and>
           field (response_of (fst (bera_ai_p1 w b))) ''type'' = JStr ''identity_response'' \<and>
           field (response_of (fst (bera_ai_p1 w b))) ''message'' = JStr identity_message_p1 \<and>
           snd (bera_ai_p1 w b) =
             (if truthy (dflt (JBool False) (voiceEnabled b))
              then [TextToSpeech (JStr identity_message_p1)] else []))"
proof (intro conjI impI)
  assume m: "regex_test True identity_rx_srv1 text"
  then have ne: "text \<noteq> []"
    using identity_needs_text_srv1 by auto
  have c: "classify_srv1 text = ''identity''"
    using m by (simp add: classify_srv1_def)
  let ?r = "[(''type'', JStr ''identity''), (''message'', JStr identity_message_srv1),
             (''creator'', JStr ''Bruce Bera'')]"
  have f: "field ?r ''message'' = JStr identity_message_srv1"
    by (simp add: field_Cons)
  note v = add_voice_srv1_cases [of w "dflt (JBool False) (voice b)" ?r "[]", unfolded f]
  have run: "bera_ai_srv1 w b =
    (case add_voice_srv1 w (dflt (JBool False) (voice b)) ?r [] of
       (Inr response, calls) \<Rightarrow>
            ((200, [(''success'', JBool True), (''response'', JObj response),
                    (''system'', JStr ''Bera AI''), (''creator'', JStr ''Bruce Bera''),
                    (''timestamp'', JStr (now w))]), calls)
        | (Inl error, calls) \<Rightarrow> (system_error_srv1, calls))"
    using assms ne c by (simp add: bera_ai_srv1_def Let_def bind_apply respond_identity_srv1)
  show "fst (fst (bera_ai_srv1 w b)) = 200"
    using v unfolding run by auto
  show "field (snd (fst (bera_ai_srv1 w b))) ''success'' = JBool True"
    using v unfolding run by (auto simp: field_Cons)
  show "field (response_of (fst (bera_ai_srv1 w b))) ''type'' = JStr ''identity''"
    using v unfolding run by (auto simp: field_Cons response_of_def field_update)
  show "field (response_of (fst (bera_ai_srv1 w b))) ''message'' = JStr identity_message_srv1"
    using v unfolding run by (auto simp: field_Cons response_of_def field_update)
  show "snd (bera_ai_srv1 w b) =
             (if dflt (JBool False) (voice b) = JBool True
              then [TextToSpeech (JStr identity_message_srv1)] else [])"
    using v unfolding run by auto
next
  assume m: "checkIdentityQuestions_p1 text"
  then have ne: "text \<noteq> []"
    using identity_needs_text_p1 by auto
  have f: "field identityResponse_p1 ''message'' = JStr identity_message_p1"
    by (simp add: field_Cons identityResponse_p1_def)
  note v = add_voice_p1_cases [of w "dflt (JBool False) (voiceEnabled b)" identityResponse_p1 "[]",
      unfolded f]
  have run: "bera_ai_p1 w b =
    (case add_voice_p1 w (dflt (JBool False) (voiceEnabled b)) identityResponse_p1 [] of
           (Inr identityResponse, calls) \<Rightarrow>
             ((200, [(''success'', JBool True), (''session_id'', dflt (JStr (uuidv4 w)) (sessionId b)),
                     (''response'', JObj identityResponse), (''timestamp'', JStr (now w)),
                     (''system'', JStr ''Bera AI''), (''creator'', JStr ''Bruce Bera''),
                     (''identity_rule_enforced'', JBool True)]), calls)
         | (Inl error, calls) \<Rightarrow> (internal_error_p1, calls))"
    using assms ne m by (simp add: bera_ai_p1_def Let_def)
  show "fst (fst (bera_ai_p1 w b)) = 200"
    using v unfolding run by auto
  show "field (snd (fst (bera_ai_p1 w b))) ''success'' = JBool True"
    using v unfolding run by (auto simp: field_Cons)
  show "field (response_of (fst (bera_ai_p1 w b))) ''type'' = JStr ''identity_response''"
    using v unfolding run
    by (auto simp: field_Cons response_of_def field_update identityResponse_p1_def)
  show "field (response_of (fst (bera_ai_p1 w b))) ''message'' = JStr identity_message_p1"
    using v unfolding run
    by (auto simp: field_Cons response_of_def field_update identityResponse_p1_def)
  show "snd (bera_ai_p1 w b) =
             (if truthy (dflt (JBool False) (voiceEnabled b))
              then [TextToSpeech (JStr identity_message_p1)] else [])"
    using v unfolding run by auto
qed

lemma who_made_you_long:
  "regex_test True identity_rx_srv1 ''who made you, can you also download this song''"
  "checkIdentityQuestions_p1 ''who made you, can you also download this song''"
  by (simp_all only: checkIdentityQuestions_p1_def js_eval cong: js_cong)

text \<open>A question about the maker that also asks for a download, without voice.\<close>

theorem identity_first_witness:
  "message (say ''who made you, can you also download this song'') =
     JStr ''who made you, can you also download this song'' \<and>
   regex_test True identity_rx_srv1 ''who made you, can you also download this song'' \<and>
   checkIdentityQuestions_p1 ''who made you, can you also download this song'' \<and>
   field (response_of (fst (bera_ai_srv1 offline
      (say ''who made you, can you also download this song'')))) ''type'' = JStr ''identity'' \<and>
   snd (bera_ai_srv1 offline (say ''who made you, can you also download this song'')) = [] \<and>
   field (response_of (fst (bera_ai_p1 offline
      (say ''who made you, can you also download this song'')))) ''type'' = JStr ''identity_response'' \<and>
   snd (bera_ai_p1 offline (say ''who made you, can you also download this song'')) = []"
proof -
  have b: "message (say ''who made you, can you also download this song'') =
     JStr ''who made you, can you also download this song''"
    by (simp add: say_def)
  show ?thesis
    using identity_first [OF b, of offline] who_made_you_long b
    by (simp add: say_def dflt_def)
qed

lemma who_made_you: "classify_srv1 ''who made you'' = ''identity''"
  by (simp only: classify_srv1_def Let_def js_eval cong: js_cong)

lemma who_created_you:
  "\<not> regex_test True identity_rx_srv1 ''who created you, can you also download this song''"
  "\<not> checkIdentityQuestions_p1 ''who created you, can you also download this song''"
  "classify_srv1 ''who created you, can you also download this song'' = ''general''"
  "classify_p1 ''who created you, can you also download this song'' = ''general_conversation''"
  by (simp_all only: checkIdentityQuestions_p1_def classify_srv1_def classify_p1_def Let_def
      js_eval cong: js_cong)

text \<open>
  The claim as it was stated lets no client be invoked: with voice requested, the
  identity message goes to text to speech.  The text that the claim gives as its
  example, \<open>who created you, can you also download this song\<close>, matches no identity
  pattern of either program; it is classified as general conversation and the chat client
  is invoked.
\<close>

theorem identity_voice_counterexample:
  "snd (bera_ai_srv1 studio ((say ''who made you'')\<lparr>voice := JBool True\<rparr>)) =
     [TextToSpeech (JStr identity_message_srv1)] \<and>
   \<not> regex_test True identity_rx_srv1 ''who created you, can you also download this song'' \<and>
   \<not> checkIdentityQuestions_p1 ''who created you, can you also download this song'' \<and>
   snd (bera_ai_srv1 offline (say ''who created you, can you also download this song'')) =
     [ChatCompletion ''who created you, can you also download this song''] \<and>
   snd (bera_ai_p1 offline (say ''who created you, can you also download this song'')) =
     [ChatCompletion ''who created you, can you also download this song'']"
proof -
  have "snd (bera_ai_srv1 studio ((say ''who made you'')\<lparr>voice := JBool True\<rparr>)) =
     [TextToSpeech (JStr identity_message_srv1)]"
    by (simp add: bera_ai_srv1_def Let_def say_def who_made_you respond_srv1_def io_simps
        add_voice_srv1_def dflt_def field_Cons generateSpeech_srv1_def studio_def offline_def
        try_catch_def bind_exn_def)
  moreover have "snd (bera_ai_srv1 offline (say ''who created you, can you also download this song'')) =
     [ChatCompletion ''who created you, can you also download this song'']"
    by (simp add: bera_ai_srv1_def Let_def say_def who_created_you respond_srv1_def io_simps
        add_voice_srv1_def dflt_def offline_gpt4o)
  moreover have "snd (bera_ai_p1 offline (say ''who created you, can you also download this song'')) =
     [ChatCompletion ''who created you, can you also download this song'']"
    by (simp add: bera_ai_p1_def Let_def say_def who_created_you respond_p1_def io_simps
        add_voice_p1_def dflt_def offline_enhance)
  ultimately show ?thesis
    using who_created_you by simp
qed

section \<open>An empty message\<close>

text \<open>
  Claim C2, as amended.  For every request whose message is empty (the empty string, or
  a message that is absent, \<open>null\<close> or otherwise falsy), the handler of \<open>/api/bera-ai\<close>
  returns the fixed answer \<open>Message is required\<close> and invokes no client.
\<close>

theorem empty_message_rejected:
  "\<not> truthy (message b) \<Longrightarrow>
     bera_ai_srv1 w b = (message_required_srv1, []) \<and>
     bera_ai_p1 w b = (message_required_p1, [])"
  by (simp add: bera_ai_srv1_def bera_ai_p1_def Let_def)

text \<open>The empty string.\<close>

theorem empty_message_rejected_witness:
  "\<not> truthy (message (say [])) \<and>
   bera_ai_srv1 offline (say []) = (message_required_srv1, []) \<and>
   bera_ai_p1 offline (say []) = (message_required_p1, [])"
proof -
  have h: "\<not> truthy (message (say []))"
    by (simp add: say_def)
  show ?thesis
    using empty_message_rejected [OF h, of offline] h by simp
qed

lemma spaces_srv1: "classify_srv1 ''   '' = ''general''"
  by (simp only: classify_srv1_def Let_def js_eval cong: js_cong)

text \<open>
  The claim as it was stated includes a message of white space only.  The guard is
  \<open>!message\<close> and nothing trims the text: three spaces are truthy, the classifier gives
  \<open>general\<close> and the chat client is invoked.
\<close>

theorem whitespace_message_counterexample:
  "fst (bera_ai_srv1 offline (say ''   '')) \<noteq> message_required_srv1 \<and>
   snd (bera_ai_srv1 offline (say ''   '')) = [ChatCompletion ''   '']"
  by (simp add: bera_ai_srv1_def Let_def say_def spaces_srv1 respond_srv1_def io_simps offline_gpt4o
      add_voice_srv1_def dflt_def message_required_srv1_def)

section \<open>Voice\<close>

lemma bera_ai_srv1_voice:
  "fst (bera_ai_srv1 w b) = fst (bera_ai_srv1 w (b\<lparr>voice := JUndefined\<rparr>)) \<or>
   (\<exists>response a. is_set (ELEVENLABS_API_KEY w) \<and>
      elevenlabs w (field response ''message'') = Resolved a \<and>
      fst (bera_ai_srv1 w (b\<lparr>voice := JUndefined\<rparr>)) = envelope_srv1 w response \<and>
      fst (bera_ai_srv1 w b) =
        envelope_srv1 w (AList.update ''voice''
          (JObj [(''audio'', JStr a), (''format'', JStr ''audio/mpeg'')]) response))"
proof (cases "truthy (message b) \<and> is_string (message b)")
  case False
  then show ?thesis
    by (auto simp: bera_ai_srv1_def Let_def lift_apply)
next
  case True
  obtain r cs where X: "respond_srv1 w (the_string (message b)) (classify_srv1 (the_string (message b))) [] = (r, cs)"
    by (cases "respond_srv1 w (the_string (message b)) (classify_srv1 (the_string (message b))) []")
  show ?thesis
  proof (cases r)
    case (Inl e)
    then show ?thesis
      using True X by (simp add: bera_ai_srv1_def Let_def bind_apply)
  next
    case (Inr response)
    have off: "add_voice_srv1 w (dflt (JBool False) JUndefined) response cs = (Inr response, cs)"
      by (simp add: add_voice_srv1_def dflt_def return_apply)
    show ?thesis
      using True X Inr off add_voice_srv1_cases [of w "dflt (JBool False) (voice b)" response cs]
      by (auto simp: bera_ai_srv1_def Let_def bind_apply envelope_srv1_def)
  qed
qed

lemma bera_ai_p1_voice:
  "fst (bera_ai_p1 w b) = fst (bera_ai_p1 w (b\<lparr>voiceEnabled := JUndefined\<rparr>)) \<or>
   (\<exists>response a tail. is_set (ELEVENLABS_API_KEY w) \<and>
      elevenlabs w (field response ''message'') = Resolved a \<and>
      fst (bera_ai_p1 w (b\<lparr>voiceEnabled := JUndefined\<rparr>)) = envelope_p1 w b tail response \<and>
      fst (bera_ai_p1 w b) =
        envelope_p1 w b tail (AList.update ''voice_format'' (JStr ''audio/mpeg'')
               (AList.update ''voice_audio'' (JStr a) response)))"
proof (cases "truthy (message b) \<and> is_string (message b)")
  case False
  then show ?thesis
    by (auto simp: bera_ai_p1_def Let_def)
next
  case True
  have off: "add_voice_p1 w (dflt (JBool False) JUndefined) response cs = (Inr response, cs)" for response cs
    by (simp add: add_voice_p1_def dflt_def return_apply)
  show ?thesis
  proof (cases "checkIdentityQuestions_p1 (the_string (message b))")
    case identity: True
    show ?thesis
      using True identity off [of identityResponse_p1 "[]"]
        add_voice_p1_cases [of w "dflt (JBool False) (voiceEnabled b)" identityResponse_p1 "[]"]
      by (auto simp: bera_ai_p1_def Let_def envelope_p1_def)
  next
    case other: False
    obtain r cs where X: "respond_p1 w (the_string (message b)) (classify_p1 (the_string (message b))) [] = (r, cs)"
      by (cases "respond_p1 w (the_string (message b)) (classify_p1 (the_string (message b))) []")
    show ?thesis
    proof (cases r)
      case (Inl e)
      then show ?thesis
        using True other X by (simp add: bera_ai_p1_def Let_def bind_apply)
    next
      case (Inr response)
      show ?thesis
        using True other X Inr off [of response cs]
          add_voice_p1_cases [of w "dflt (JBool False) (voiceEnabled b)" response cs]
        by (auto simp: bera_ai_p1_def Let_def bind_apply envelope_p1_def)
    qed
  qed
qed

lemma response_of_envelope_srv1: "response_of (envelope_srv1 w response) = response"
  by (simp add: response_of_def envelope_srv1_def)

lemma response_of_envelope_p1: "response_of (envelope_p1 w b tail response) = response"
  by (simp add: response_of_def envelope_p1_def)

text \<open>
  Claim C5.  The step that attaches voice extends the response and changes nothing else.
  Between a request with voice and the same request without it, the status and every
  property of the answer beside \<open>response\<close> agree, and every property of the response
  agrees except \<open>voice\<close> (first program of \<open>server.js\<close>), respectively \<open>voice_audio\<close> and
  \<open>voice_format\<close> (first program of \<open>part_000\<close>): the type, the message and every other
  property are those of the request without voice.  When text to speech fails, because
  it is not configured or because the service does not answer, the two answers are the
  same, so that a voice failure adds no property and never fails the request.
\<close>

theorem voice_only_adds_audio:
  "fst (fst (bera_ai_srv1 w b)) = fst (fst (bera_ai_srv1 w (b\<lparr>voice := JUndefined\<rparr>))) \<and>
   (\<forall>k. k \<noteq> ''response'' \<longrightarrow>
      field (snd (fst (bera_ai_srv1 w b))) k =
      field (snd (fst (bera_ai_srv1 w (b\<lparr>voice := JUndefined\<rparr>)))) k) \<and>
   (\<forall>k. k \<noteq> ''voice'' \<longrightarrow>
      field (response_of (fst (bera_ai_srv1 w b))) k =
      field (response_of (fst (bera_ai_srv1 w (b\<lparr>voice := JUndefined\<rparr>)))) k) \<and>
   (\<not> is_set (ELEVENLABS_API_KEY w) \<or> (\<forall>t. elevenlabs w t = Rejected) \<longrightarrow>
      fst (bera_ai_srv1 w b) = fst (bera_ai_srv1 w (b\<lparr>voice := JUndefined\<rparr>))) \<and>
   fst (fst (bera_ai_p1 w b)) = fst (fst (bera_ai_p1 w (b\<lparr>voiceEnabled := JUndefined\<rparr>))) \<and>
   (\<forall>k. k \<noteq> ''response'' \<longrightarrow>
      field (snd (fst (bera_ai_p1 w b))) k =
      field (snd (fst (bera_ai_p1 w (b\<lparr>voiceEnabled := JUndefined\<rparr>)))) k) \<and>
   (\<forall>k. k \<noteq> ''voice_audio'' \<and> k \<noteq> ''voice_format'' \<longrightarrow>
      field (response_of (fst (bera_ai_p1 w b))) k =
      field (response_of (fst (bera_ai_p1 w (b\<lparr>voiceEnabled := JUndefined\<rparr>)))) k) \<and>
   (\<not> is_set (ELEVENLABS_API_KEY w) \<or> (\<forall>t. elevenlabs w t = Rejected) \<longrightarrow>
      fst (bera_ai_p1 w b) = fst (bera_ai_p1 w (b\<lparr>voiceEnabled := JUndefined\<rparr>)))"
proof -
  have s: "fst (fst (bera_ai_srv1 w b)) = fst (fst (bera_ai_srv1 w (b\<lparr>voice := JUndefined\<rparr>)))"
    using bera_ai_srv1_voice [of w b] by (auto simp: envelope_srv1_def)
  moreover have "field (snd (fst (bera_ai_srv1 w b))) k =
      field (snd (fst (bera_ai_srv1 w (b\<lparr>voice := JUndefined\<rparr>)))) k" if "k \<noteq> ''response''" for k
    using bera_ai_srv1_voice [of w b] that by (auto simp: envelope_srv1_def field_Cons)
  moreover have "field (response_of (fst (bera_ai_srv1 w b))) k =
      field (response_of (fst (bera_ai_srv1 w (b\<lparr>voice := JUndefined\<rparr>)))) k" if "k \<noteq> ''voice''" for k
    using bera_ai_srv1_voice [of w b] that
    by (auto simp: response_of_envelope_srv1 field_update)
  moreover have "fst (bera_ai_srv1 w b) = fst (bera_ai_srv1 w (b\<lparr>voice := JUndefined\<rparr>))"
    if "\<not> is_set (ELEVENLABS_API_KEY w) \<or> (\<forall>t. elevenlabs w t = Rejected)"
    using bera_ai_srv1_voice [of w b] that by auto
  moreover have "fst (fst (bera_ai_p1 w b)) = fst (fst (bera_ai_p1 w (b\<lparr>voiceEnabled := JUndefined\<rparr>)))"
    using bera_ai_p1_voice [of w b] by (auto simp: envelope_p1_def)
  moreover have "field (snd (fst (bera_ai_p1 w b))) k =
      field (snd (fst (bera_ai_p1 w (b\<lparr>voiceEnabled := JUndefined\<rparr>)))) k" if "k \<noteq> ''response''" for k
    using bera_ai_p1_voice [of w b] that by (auto simp: envelope_p1_def field_Cons)
  moreover have "field (response_of (fst (bera_ai_p1 w b))) k =
      field (response_of (fst (bera_ai_p1 w (b\<lparr>voiceEnabled := JUndefined\<rparr>)))) k"
    if "k \<noteq> ''voice_audio'' \<and> k \<noteq> ''voice_format''" for k
    using bera_ai_p1_voice [of w b] that
    by (auto simp: response_of_envelope_p1 field_update)
  moreover have "fst (bera_ai_p1 w b) = fst (bera_ai_p1 w (b\<lparr>voiceEnabled := JUndefined\<rparr>))"
    if "\<not> is_set (ELEVENLABS_API_KEY w) \<or> (\<forall>t. elevenlabs w t = Rejected)"
    using bera_ai_p1_voice [of w b] that by auto
  ultimately show ?thesis
    by blast
qed

lemma help_p1: "\<not> checkIdentityQuestions_p1 ''help''" "classify_p1 ''help'' = ''help_request''"
  by (simp_all only: checkIdentityQuestions_p1_def classify_p1_def Let_def js_eval cong: js_cong)

lemma p1_voice_example:
  "field (response_of (fst (bera_ai_p1 studio ((say ''help'')\<lparr>voiceEnabled := JBool True\<rparr>)))) ''voice_audio'' = JStr ''SUQz''"
  by (simp add: bera_ai_p1_def Let_def say_def help_p1 respond_p1_def io_simps
        add_voice_p1_def dflt_def field_Cons generateSpeech_p1_def studio_def offline_def
        try_catch_def bind_exn_def response_of_def field_update)

lemma help_srv1: "classify_srv1 ''help'' = ''help''"
  by (simp only: classify_srv1_def Let_def js_eval cong: js_cong)

text \<open>A request for help with voice, where text to speech answers and where it is not
  configured.\<close>

theorem voice_only_adds_audio_witness:
  "''message'' \<noteq> ''voice'' \<and> ''system'' \<noteq> ''response'' \<and>
   field (response_of (fst (bera_ai_srv1 studio ((say ''help'')\<lparr>voice := JBool True\<rparr>)))) ''message'' =
   field (response_of (fst (bera_ai_srv1 studio ((say ''help'')\<lparr>voice := JBool True, voice := JUndefined\<rparr>)))) ''message'' \<and>
   field (snd (fst (bera_ai_srv1 studio ((say ''help'')\<lparr>voice := JBool True\<rparr>)))) ''system'' =
   field (snd (fst (bera_ai_srv1 studio ((say ''help'')\<lparr>voice := JBool True, voice := JUndefined\<rparr>)))) ''system'' \<and>
   field (response_of (fst (bera_ai_srv1 studio ((say ''help'')\<lparr>voice := JBool True\<rparr>)))) ''voice'' =
     JObj [(''audio'', JStr ''SUQz''), (''format'', JStr ''audio/mpeg'')] \<and>
   \<not> is_set (ELEVENLABS_API_KEY offline) \<and>
   fst (bera_ai_srv1 offline ((say ''help'')\<lparr>voice := JBool True\<rparr>)) =
   fst (bera_ai_srv1 offline ((say ''help'')\<lparr>voice := JBool True, voice := JUndefined\<rparr>)) \<and>
   fst (bera_ai_p1 offline ((say ''help'')\<lparr>voiceEnabled := JBool True\<rparr>)) =
   fst (bera_ai_p1 offline ((say ''help'')\<lparr>voiceEnabled := JBool True, voiceEnabled := JUndefined\<rparr>)) \<and>
   field (response_of (fst (bera_ai_p1 studio ((say ''help'')\<lparr>voiceEnabled := JBool True\<rparr>)))) ''type'' =
   field (response_of (fst (bera_ai_p1 studio ((say ''help'')\<lparr>voiceEnabled := JBool True, voiceEnabled := JUndefined\<rparr>)))) ''type'' \<and>
   field (response_of (fst (bera_ai_p1 studio ((say ''help'')\<lparr>voiceEnabled := JBool True\<rparr>)))) ''voice_audio'' =
     JStr ''SUQz''"
proof -
  have v: "field (response_of (fst (bera_ai_srv1 studio ((say ''help'')\<lparr>voice := JBool True\<rparr>)))) ''voice'' =
     JObj [(''audio'', JStr ''SUQz''), (''format'', JStr ''audio/mpeg'')]"
    by (simp add: bera_ai_srv1_def Let_def say_def help_srv1 respond_srv1_def io_simps
        add_voice_srv1_def dflt_def field_Cons generateSpeech_srv1_def studio_def offline_def
        try_catch_def bind_exn_def response_of_def field_update)
  have k: "\<not> is_set (ELEVENLABS_API_KEY offline)"
    by (simp add: offline_def)
  show ?thesis
    using voice_only_adds_audio [of studio "(say ''help'')\<lparr>voice := JBool True\<rparr>"]
      voice_only_adds_audio [of offline "(say ''help'')\<lparr>voice := JBool True\<rparr>"]
      voice_only_adds_audio [of offline "(say ''help'')\<lparr>voiceEnabled := JBool True\<rparr>"]
      voice_only_adds_audio [of studio "(say ''help'')\<lparr>voiceEnabled := JBool True\<rparr>"]
      v k p1_voice_example
    by simp
qed

section \<open>The chat client fails\<close>

lemma pick_in:
  assumes "0 \<le> r" "r < 1" "xs \<noteq> []"
  shows "\<exists>x \<in> set xs. pick xs r = JStr x"
proof -
  let ?n = "real (length xs)"
  have n: "0 < ?n"
    using assms(3) by simp
  have lo: "0 \<le> \<lfloor>r * ?n\<rfloor>"
    using assms(1) n by simp
  have "r * ?n < ?n"
    using assms(2) n by simp
  then have hi: "\<lfloor>r * ?n\<rfloor> < int (length xs)"
    by (simp add: floor_less_iff)
  then have "nat \<lfloor>r * ?n\<rfloor> < length xs"
    using lo by linarith
  then have "xs ! nat \<lfloor>r * ?n\<rfloor> \<in> set xs"
    by simp
  moreover have "pick xs r = JStr (xs ! nat \<lfloor>r * ?n\<rfloor>)"
    using lo hi by (simp add: pick_def Let_def)
  ultimately show ?thesis
    by blast
qed

lemma respond_p1_fallback:
  assumes "enhanceResponse_p1 w text = Inr v" "failed v"
  shows "respond_p1 w text ''general_conversation'' cs =
           (Inr [(''type'', JStr ''general_conversation''),
                 (''message'', pick generalResponses_p1 (random w 0)),
                 (''creator'', JStr ''Bruce Bera'')], cs @ [ChatCompletion text])"
proof (cases v)
  case JNull
  then show ?thesis
    using assms by (simp add: respond_p1_def io_simps)
next
  case (JObj kvs)
  then show ?thesis
    using assms by (simp add: respond_p1_def io_simps failed_def field_def)
qed (use assms in \<open>simp_all add: failed_def\<close>)

lemma respond_srv2_fallback:
  assumes "enhanceResponse_srv2 w text = Inr v" "failed v"
  shows "respond_srv2 w text ''general_conversation'' cs =
           (Inr [(''type'', JStr ''general_conversation''),
                 (''message'', pick fallbacks_srv2 (random w 0)),
                 (''creator'', JStr ''Bruce Bera'')], cs @ [ChatCompletion text])"
proof (cases v)
  case JNull
  then show ?thesis
    using assms by (simp add: respond_srv2_def io_simps)
next
  case (JObj kvs)
  then show ?thesis
    using assms by (simp add: respond_srv2_def io_simps failed_def field_def)
qed (use assms in \<open>simp_all add: failed_def\<close>)

lemma add_voice_p1_keeps:
  "\<exists>response' cs'. add_voice_p1 w flag response cs = (Inr response', cs') \<and>
     field response' ''type'' = field response ''type'' \<and>
     field response' ''message'' = field response ''message''"
  using add_voice_p1_cases [of w flag response cs] by (auto simp: field_update)

text \<open>
  Claim C4.  Whenever the branch for general conversation runs (the message is a
  non-empty text, no identity pattern matches, the classifier gives
  \<open>general_conversation\<close>) and the chat client has no completion (it returns \<open>null\<close>, or an
  object with \<open>success: false\<close>), the message of the response is one of the fixed
  fallback sentences, and the answer has status 200 and \<open>success: true\<close>.  The sentence is
  chosen by \<open>Math.random()\<close>, a number from 0 up to but not including 1.  This holds in
  the first program of \<open>part_000\<close> and in the second program of \<open>server.js\<close>.
\<close>

theorem chat_failure_fallback:
  assumes "message b = JStr text" "text \<noteq> []" "0 \<le> random w 0" "random w 0 < 1"
  shows "(\<not> checkIdentityQuestions_p1 text \<and> classify_p1 text = ''general_conversation'' \<and>
          enhanceResponse_p1 w text = Inr v \<and> failed v \<longrightarrow>
            fst (fst (bera_ai_p1 w b)) = 200 \<and>
            field (snd (fst (bera_ai_p1 w b))) ''success'' = JBool True \<and>
            field (response_of (fst (bera_ai_p1 w b))) ''type'' = JStr ''general_conversation'' \<and>
            field (response_of (fst (bera_ai_p1 w b))) ''message'' \<in> JStr ` set generalResponses_p1) \<and>
         (\<not> checkIdentityQuestions_srv2 text \<and> classify_p1 text = ''general_conversation'' \<and>
          enhanceResponse_srv2 w text = Inr v \<and> failed v \<longrightarrow>
            fst (fst (bera_ai_srv2 w b)) = 200 \<and>
            field (snd (fst (bera_ai_srv2 w b))) ''success'' = JBool True \<and>
            field (response_of (fst (bera_ai_srv2 w b))) ''type'' = JStr ''general_conversation'' \<and>
            field (response_of (fst (bera_ai_srv2 w b))) ''message'' \<in> JStr ` set fallbacks_srv2)"
proof (intro conjI impI)
  assume h: "\<not> checkIdentityQuestions_p1 text \<and> classify_p1 text = ''general_conversation'' \<and>
          enhanceResponse_p1 w text = Inr v \<and> failed v"
  let ?r = "[(''type'', JStr ''general_conversation''),
             (''message'', pick generalResponses_p1 (random w 0)),
             (''creator'', JStr ''Bruce Bera'')]"
  obtain x where x: "x \<in> set generalResponses_p1" "pick generalResponses_p1 (random w 0) = JStr x"
    using pick_in [OF assms(3) assms(4), of generalResponses_p1]
    by (auto simp: generalResponses_p1_def)
  obtain response' cs' where
    v: "add_voice_p1 w (dflt (JBool False) (voiceEnabled b)) ?r [ChatCompletion text] = (Inr response', cs')"
       "field response' ''type'' = JStr ''general_conversation''"
       "field response' ''message'' = JStr x"
    using add_voice_p1_keeps [of w "dflt (JBool False) (voiceEnabled b)" ?r "[ChatCompletion text]"] x
    by (auto simp: field_Cons)
  have run: "fst (bera_ai_p1 w b) =
      (200, [(''success'', JBool True), (''session_id'', dflt (JStr (uuidv4 w)) (sessionId b)),
             (''response'', JObj response'), (''timestamp'', JStr (now w)),
             (''system'', JStr ''Bera AI''), (''creator'', JStr ''Bruce Bera'')])"
    using assms(1,2) h respond_p1_fallback [of w "text" v "[]"] v(1)
    by (simp add: bera_ai_p1_def Let_def bind_apply)
  show "fst (fst (bera_ai_p1 w b)) = 200"
    by (simp add: run)
  show "field (snd (fst (bera_ai_p1 w b))) ''success'' = JBool True"
    by (simp add: run field_Cons)
  show "field (response_of (fst (bera_ai_p1 w b))) ''type'' = JStr ''general_conversation''"
    by (simp add: run response_of_def v(2))
  show "field (response_of (fst (bera_ai_p1 w b))) ''message'' \<in> JStr ` set generalResponses_p1"
    using x(1) by (simp add: run response_of_def v(3))
next
  assume h: "\<not> checkIdentityQuestions_srv2 text \<and> classify_p1 text = ''general_conversation'' \<and>
          enhanceResponse_srv2 w text = Inr v \<and> failed v"
  let ?r = "[(''type'', JStr ''general_conversation''),
             (''message'', pick fallbacks_srv2 (random w 0)),
             (''creator'', JStr ''Bruce Bera'')]"
  obtain x where x: "x \<in> set fallbacks_srv2" "pick fallbacks_srv2 (random w 0) = JStr x"
    using pick_in [OF assms(3) assms(4), of fallbacks_srv2]
    by (auto simp: fallbacks_srv2_def)
  obtain response' cs' where
    v: "add_voice_p1 w (dflt (JBool False) (voiceEnabled b)) ?r [ChatCompletion text] = (Inr response', cs')"
       "field response' ''type'' = JStr ''general_conversation''"
       "field response' ''message'' = JStr x"
    using add_voice_p1_keeps [of w "dflt (JBool False) (voiceEnabled b)" ?r "[ChatCompletion text]"] x
    by (auto simp: field_Cons)
  have run: "fst (bera_ai_srv2 w b) =
      (200, [(''success'', JBool True), (''session_id'', dflt (JStr (uuidv4 w)) (sessionId b)),
             (''response'', JObj response'), (''timestamp'', JStr (now w)),
             (''system'', JStr ''Bera AI''), (''creator'', JStr ''Bruce Bera'')])"
    using assms(1,2) h respond_srv2_fallback [of w "text" v "[]"] v(1)
    by (simp add: bera_ai_srv2_def Let_def bind_apply)
  show "fst (fst (bera_ai_srv2 w b)) = 200"
    by (simp add: run)
  show "field (snd (fst (bera_ai_srv2 w b))) ''success'' = JBool True"
    by (simp add: run field_Cons)
  show "field (response_of (fst (bera_ai_srv2 w b))) ''type'' = JStr ''general_conversation''"
    by (simp add: run response_of_def v(2))
  show "field (response_of (fst (bera_ai_srv2 w b))) ''message'' \<in> JStr ` set fallbacks_srv2"
    using x(1) by (simp add: run response_of_def v(3))
qed

lemma hello:
  "\<not> checkIdentityQuestions_p1 ''hello''" "\<not> checkIdentityQuestions_srv2 ''hello''"
  "classify_p1 ''hello'' = ''general_conversation''"
  by (simp_all only: checkIdentityQuestions_p1_def checkIdentityQuestions_srv2_def classify_p1_def
      Let_def js_eval cong: js_cong)

text \<open>The text \<open>hello\<close> in a world where no chat service answers.\<close>

theorem chat_failure_fallback_witness:
  "message (say ''hello'') = JStr ''hello'' \<and> ''hello'' \<noteq> [] \<and>
   0 \<le> random offline 0 \<and> random offline 0 < 1 \<and>
   \<not> checkIdentityQuestions_p1 ''hello'' \<and> \<not> checkIdentityQuestions_srv2 ''hello'' \<and>
   classify_p1 ''hello'' = ''general_conversation'' \<and>
   enhanceResponse_p1 offline ''hello'' = Inr JNull \<and>
   enhanceResponse_srv2 offline ''hello'' = Inr JNull \<and> failed JNull \<and>
   field (snd (fst (bera_ai_p1 offline (say ''hello'')))) ''success'' = JBool True \<and>
   field (response_of (fst (bera_ai_p1 offline (say ''hello'')))) ''message''
     \<in> JStr ` set generalResponses_p1 \<and>
   field (snd (fst (bera_ai_srv2 offline (say ''hello'')))) ''success'' = JBool True \<and>
   field (response_of (fst (bera_ai_srv2 offline (say ''hello'')))) ''message''
     \<in> JStr ` set fallbacks_srv2"
proof -
  have b: "message (say ''hello'') = JStr ''hello''"
    by (simp add: say_def)
  have n: "''hello'' \<noteq> []"
    by simp
  have lo: "0 \<le> random offline 0" and hi: "random offline 0 < 1"
    by (simp_all add: offline_def)
  have f: "failed JNull"
    by (simp add: failed_def)
  show ?thesis
    using chat_failure_fallback [OF b n lo hi, of JNull] b lo hi f hello offline_enhance offline_openai
    by simp
qed

section \<open>A song request without a song\<close>

lemma download_song_p2:
  "classify_p2 ''download song'' = ''song_download''"
  "extractSongRequest_p2 ''download song'' = JNull"
  by (simp_all only: classify_p2_def extractSongRequest_p2_def Let_def js_eval cong: js_cong)

lemma getAIResponse_Inr: "\<exists>v. getAIResponse w p = Inr v"
  using getAIResponse_returned [of w p] by (cases "getAIResponse w p") (simp_all add: returned_def)

text \<open>
  Claim C3 does not hold in the second program of \<open>part_000\<close>.  The text
  \<open>download song\<close> is classified \<open>song_download\<close> and \<open>extractSongRequest\<close> returns \<open>null\<close>
  for it.  The block for song downloads has no \<open>else\<close> for this case: control leaves the
  block, reaches the general conversation at the end of the handler, and the chat client
  is invoked with the text.  The answer has the type \<open>ai_response\<close>, not a clarification.
\<close>

theorem unclear_song_reaches_chat:
  "classify_p2 ''download song'' = ''song_download'' \<and>
   extractSongRequest_p2 ''download song'' = JNull \<and>
   snd (bera_ai_p2 w (say ''download song'')) = [ChatCompletion ''download song''] \<and>
   field (response_of (fst (bera_ai_p2 w (say ''download song'')))) ''type'' = JStr ''ai_response''"
proof -
  obtain v where v: "getAIResponse w ''download song'' = Inr v"
    using getAIResponse_Inr by blast
  have "bera_ai_p2 w (say ''download song'') =
          (ok_p2 [(''type'', JStr ''ai_response''),
            (''message'', or_else v (JStr ''I am Bera AI, created by Bruce Bera. How can I help you?'')),
            (''ai_provider'', JStr ''GiftedTech GPT-4o''),
            (''creator'', JStr ''Bruce Bera'')], [ChatCompletion ''download song''])"
    by (simp add: bera_ai_p2_def say_def handle_p2_def download_song_p2 song_download_p2_def
        rest_p2_def io_simps v)
  then show ?thesis
    by (simp add: download_song_p2 response_of_def ok_p2_def field_Cons)
qed

text \<open>
  The fifth program of \<open>part_000\<close> has the branch that the second one misses: its answer
  is \<open>song_request_unclear\<close>, and nothing but text to speech can be invoked.
\<close>

lemma add_voice_p5_keeps:
  "\<exists>response'. add_voice_p5 w flag response cs =
       (Inr response', cs @ (if flag = JBool True then [TextToSpeech (field response ''message'')] else [])) \<and>
     field response' ''type'' = field response ''type''"
proof -
  have "(\<exists>e. generateSpeech_p5 w t = Inr (JObj [(''success'', JBool False), (''error'', JStr e)])) \<or>
   (\<exists>a. generateSpeech_p5 w t =
          Inr (JObj [(''success'', JBool True), (''audio'', JStr a), (''format'', JStr ''audio/mpeg'')]))" for t
    by (cases "elevenlabs w (JStr (take 5000 (the_string t)))")
       (simp_all add: generateSpeech_p5_def try_catch_def bind_exn_def)
  from this [of "field response ''message''"] show ?thesis
    by (auto simp: add_voice_p5_def io_simps field_update)
qed

lemma unclear_song_p5:
  assumes "message b = JStr text" "text \<noteq> []" "\<not> (truthy (audio_data b) \<and> truthy (audio_type b))"
    "classify_p5 text = ''song_download''" "\<not> truthy (extractSongRequest_p5 text)"
  shows "field (response_of (fst (bera_ai_p5 w b))) ''type'' = JStr ''song_request_unclear'' \<and>
         set (snd (bera_ai_p5 w b)) \<subseteq> range TextToSpeech"
proof -
  let ?r = "[(''type'', JStr ''song_request_unclear''),
             (''message'', JStr ''Please specify which song you want to download. Example: \"Download Gleeish Place by King Von\"''),
             (''examples'', JArr [JStr ''Download Gleeish Place by King Von'',
                JStr ''Get me the song Blinding Lights by The Weeknd'',
                JStr ''Download As It Was by Harry Styles as MP3'']),
             (''creator'', JStr ''Bruce Bera'')]"
  have r: "respond_p5 w text ''song_download'' cs = (Inr ?r, cs)" for cs
    using assms(5) by (simp add: respond_p5_def Let_def io_simps)
  obtain response' where
    v: "add_voice_p5 w (dflt (JBool False) (voice b)) ?r [] =
          (Inr response', [] @ (if dflt (JBool False) (voice b) = JBool True
              then [TextToSpeech (field ?r ''message'')] else []))"
       "field response' ''type'' = JStr ''song_request_unclear''"
    using add_voice_p5_keeps [of w "dflt (JBool False) (voice b)" ?r "[]"]
    by (auto simp: field_Cons)
  have "bera_ai_p5 w b =
     ((200, [(''success'', JBool True), (''response'', JObj response'),
             (''system'', JStr ''Bera AI''), (''creator'', JStr ''Bruce Bera''),
             (''timestamp'', JStr (now w))]),
      (if dflt (JBool False) (voice b) = JBool True then [TextToSpeech (field ?r ''message'')] else []))"
    using assms(1-4) r v(1)
    by (auto simp: bera_ai_p5_def Let_def audio_input_p5_def io_simps)
  then show ?thesis
    using v(2) by (auto simp: response_of_def)
qed

lemma find_music_p5:
  "classify_p5 ''find music'' = ''song_download''"
  "\<not> truthy (extractSongRequest_p5 ''find music'')"
  by (simp_all only: classify_p5_def extractSongRequest_p5_def Let_def js_eval cong: js_cong)

lemma unclear_song_p5_example:
  "field (response_of (fst (bera_ai_p5 offline (say ''find music'')))) ''type'' = JStr ''song_request_unclear'' \<and>
   snd (bera_ai_p5 offline (say ''find music'')) = []"
  using unclear_song_p5 [of "say ''find music''" "''find music''" offline] find_music_p5
  by (simp add: say_def bera_ai_p5_def Let_def audio_input_p5_def io_simps respond_p5_def
      add_voice_p5_def dflt_def)

section \<open>Download Shape of You by Ed Sheeran\<close>




lemma response_of_ok_p2: "response_of (ok_p2 response) = response"
  by (simp add: response_of_def ok_p2_def)



section \<open>Timeouts\<close>






text \<open>
  The request that the statement leaves out has no timeout: when the service does not
  answer, its promise does not settle.  The same request has \<open>timeout: 30000\<close> in the
  other programs.
\<close>

lemma voice_request_without_timeout:
  "\<lparr>program = ''part_000 3'', client = ''VoiceService.generateSpeech'', timeout = None\<rparr>
     \<in> set outbound_requests \<and>
   settle_time
     \<lparr>program = ''part_000 3'', client = ''VoiceService.generateSpeech'', timeout = None\<rparr>
     None = None \<and>
   (\<forall>c \<in> set outbound_requests.
      program c = ''part_000 3'' \<and> client c = ''VoiceService.generateSpeech'' \<longrightarrow>
      timeout c = None)"
  by (simp add: outbound_requests_def settle_time_def)

lemma voice_request_elsewhere:
  "\<forall>c \<in> set outbound_requests.
     program c \<noteq> ''part_000 3'' \<and>
     (client c = ''VoiceService.generateSpeech'' \<or> client c = ''ElevenLabsService.generateSpeech'')
     \<longrightarrow> timeout c = Some 30000"
  by (simp add: outbound_requests_def)

end
